theory Spec2Isabelle
  imports Main
begin

section \<open>The release publisher \<^verbatim>\<open>scripts/create_release.py\<close>\<close>

text \<open>
  The script reads six environment variables, builds a dictionary of ten entries,
  serialises it with \<^verbatim>\<open>json.dumps\<close>, posts it with \<^verbatim>\<open>urllib.request.urlopen\<close> and
  maps the answer to an exit code. The model below follows \<^verbatim>\<open>main()\<close> line by line.
  Everything the script takes from outside is a parameter: the environment, the clock,
  the network and standard output are fields of a \<open>world\<close>; the facts of the Python
  build that \<^verbatim>\<open>int()\<close> depends on are fields of a \<open>platform\<close>.
\<close>

subsection \<open>Python values\<close>

text \<open>
  A Python \<^verbatim>\<open>str\<close> is a sequence of Unicode code points and a \<^verbatim>\<open>bytes\<close> object a
  sequence of octets; both are lists of naturals here. \<open>str\<close> turns a literal of the
  theory into the list of its code points.
\<close>

type_synonym pystr = "nat list"
type_synonym bytes = "nat list"

definition str :: "string \<Rightarrow> pystr" where
  "str s = map of_char s"

text \<open>The exceptions that can leave \<^verbatim>\<open>main()\<close>. \<open>URLError\<close> stands for every
  exception other than \<^verbatim>\<open>HTTPError\<close> that the transport raises (connection, DNS, TLS,
  a read that breaks off), \<open>OSError\<close> for the error of a stream that cannot be
  written.\<close>

datatype exn =
    KeyError pystr
  | ValueError
  | UnicodeDecodeError
  | UnicodeEncodeError
  | URLError pystr
  | OSError pystr

subsection \<open>The substring test \<^verbatim>\<open>sub in s\<close>\<close>

fun startswith :: "pystr \<Rightarrow> pystr \<Rightarrow> bool" where
  "startswith s [] = True"
| "startswith [] (p # ps) = False"
| "startswith (c # cs) (p # ps) = (c = p \<and> startswith cs ps)"

text \<open>\<open>contains s sub\<close> is Python's \<^verbatim>\<open>sub in s\<close>: some position of \<open>s\<close> starts
  with \<open>sub\<close>.\<close>

fun contains :: "pystr \<Rightarrow> pystr \<Rightarrow> bool" where
  "contains [] sub = (sub = [])"
| "contains (c # cs) sub = (startswith (c # cs) sub \<or> contains cs sub)"

text \<open>Line 12: \<^verbatim>\<open>channel = "beta" if "beta" in version else "stable"\<close>.\<close>

definition channel_of :: "pystr \<Rightarrow> pystr" where
  "channel_of version = (if contains version (str ''beta'') then str ''beta'' else str ''stable'')"

subsection \<open>Decimal output of integers\<close>

text \<open>\<^verbatim>\<open>str(n)\<close> for a natural number and for an integer.\<close>

fun show_nat :: "nat \<Rightarrow> pystr" where
  "show_nat n = (if n < 10 then [48 + n] else show_nat (n div 10) @ [48 + n mod 10])"

declare show_nat.simps [simp del]

definition show_int :: "int \<Rightarrow> pystr" where
  "show_int i = (if i < 0 then 45 # show_nat (nat (- i)) else show_nat (nat i))"

subsection \<open>The conversion \<^verbatim>\<open>int(s)\<close> of a string\<close>

text \<open>
  What \<^verbatim>\<open>int()\<close> accepts depends on the Python build: which code points from 127 on
  count as white space (\<^verbatim>\<open>Py_UNICODE_ISSPACE\<close>), which are decimal digits and of what
  value (\<^verbatim>\<open>Py_UNICODE_TODECIMAL\<close>), and the limit on the number of digits
  (\<^verbatim>\<open>sys.get_int_max_str_digits()\<close>, 0 for none; CPython looks at it only for more
  than 640 digits).
\<close>

record platform =
  unicode_isspace :: "nat \<Rightarrow> bool"
  unicode_todecimal :: "nat \<Rightarrow> nat option"
  int_max_str_digits :: nat

text \<open>\<^verbatim>\<open>_PyUnicode_TransformDecimalAndSpaceToASCII\<close>: a string of ASCII only is left as
  it is; otherwise code points below 127 are kept, spaces become a blank, digits their
  ASCII digit, and the first other code point becomes a question mark that ends the
  result.\<close>

fun transform_chars :: "platform \<Rightarrow> pystr \<Rightarrow> pystr" where
  "transform_chars pf [] = []"
| "transform_chars pf (c # cs) =
     (if c < 127 then c # transform_chars pf cs
      else if unicode_isspace pf c then 32 # transform_chars pf cs
      else (case unicode_todecimal pf c of
              None \<Rightarrow> [63]
            | Some d \<Rightarrow> (48 + d) # transform_chars pf cs))"

definition transform_decimal_and_space :: "platform \<Rightarrow> pystr \<Rightarrow> pystr" where
  "transform_decimal_and_space pf s =
     (if list_all (\<lambda>c. c < 128) s then s else transform_chars pf s)"

text \<open>\<^verbatim>\<open>Py_ISSPACE\<close>: blank, tab, line feed, vertical tab, form feed, carriage return.\<close>

definition ascii_isspace :: "nat \<Rightarrow> bool" where
  "ascii_isspace c = (c = 32 \<or> (9 \<le> c \<and> c \<le> 13))"

definition is_digit :: "nat \<Rightarrow> bool" where
  "is_digit c = (48 \<le> c \<and> c \<le> 57)"

text \<open>The scan over digits and underscores of \<^verbatim>\<open>PyLong_FromString\<close>: \<open>prev\<close> is the
  character before, the accumulator the digit values so far. Two underscores in a row
  and an underscore at the end of the run are errors (\<open>None\<close>).\<close>

fun scan_digits :: "nat \<Rightarrow> pystr \<Rightarrow> nat list \<Rightarrow> (nat list \<times> pystr) option" where
  "scan_digits prev [] acc = (if prev = 95 then None else Some (acc, []))"
| "scan_digits prev (c # cs) acc =
     (if c = 95 then (if prev = 95 then None else scan_digits c cs acc)
      else if is_digit c then scan_digits c cs (acc @ [c - 48])
      else if prev = 95 then None
      else Some (acc, c # cs))"

definition digits_value :: "nat list \<Rightarrow> nat" where
  "digits_value ds = foldl (\<lambda>v d. 10 * v + d) 0 ds"

definition split_sign :: "pystr \<Rightarrow> bool \<times> pystr" where
  "split_sign t =
     (case t of
        [] \<Rightarrow> (False, [])
      | c # r \<Rightarrow> if c = 43 then (False, r) else if c = 45 then (True, r) else (False, c # r))"

definition py_int :: "platform \<Rightarrow> pystr \<Rightarrow> exn + int" where
  "py_int pf s =
     (case split_sign (dropWhile ascii_isspace (transform_decimal_and_space pf s)) of
        (neg, u) \<Rightarrow>
          if (case u of [] \<Rightarrow> False | c # _ \<Rightarrow> c = 95) then Inl ValueError
          else (case scan_digits 0 u [] of
                  None \<Rightarrow> Inl ValueError
                | Some (ds, rest) \<Rightarrow>
                    if 640 < length ds \<and> 0 < int_max_str_digits pf
                       \<and> int_max_str_digits pf < length ds then Inl ValueError
                    else if ds = [] then Inl ValueError
                    else if dropWhile ascii_isspace rest \<noteq> [] then Inl ValueError
                    else Inr (if neg then - int (digits_value ds) else int (digits_value ds))))"

subsection \<open>The clock and \<^verbatim>\<open>strftime\<close>\<close>

text \<open>A reading of \<^verbatim>\<open>datetime.utcnow()\<close>. CPython hands \<^verbatim>\<open>%Y\<close> to the C library, which
  prints the year as a plain decimal number; the other fields are printed with two
  digits.\<close>

record datetime =
  year :: nat
  month :: nat
  day :: nat
  hour :: nat
  minute :: nat
  second :: nat

definition two_digits :: "nat \<Rightarrow> pystr" where
  "two_digits n = (if n < 10 then 48 # show_nat n else show_nat n)"

text \<open>\<^verbatim>\<open>strftime("%Y-%m-%dT%H:%M:%SZ")\<close>.\<close>

definition strftime :: "datetime \<Rightarrow> pystr" where
  "strftime d =
     show_nat (year d) @ str ''-'' @ two_digits (month d) @ str ''-'' @ two_digits (day d)
     @ str ''T'' @ two_digits (hour d) @ str '':'' @ two_digits (minute d) @ str '':''
     @ two_digits (second d) @ str ''Z''"

subsection \<open>\<^verbatim>\<open>json.dumps\<close> of a flat dictionary\<close>

datatype jvalue = JStr pystr | JInt int | JBool bool

definition hex_digit :: "nat \<Rightarrow> nat" where
  "hex_digit d = (if d < 10 then 48 + d else 87 + d)"

text \<open>\<^verbatim>\<open>'\\u{0:04x}'.format(n)\<close>: backslash, u, four lower-case hexadecimal digits.\<close>

definition u_escape :: "nat \<Rightarrow> pystr" where
  "u_escape n =
     [92, 117, hex_digit (n div 4096 mod 16), hex_digit (n div 256 mod 16),
      hex_digit (n div 16 mod 16), hex_digit (n mod 16)]"

text \<open>The replacement of one code point in \<^verbatim>\<open>py_encode_basestring_ascii\<close>: the quote,
  the backslash and the five short control escapes come first; a printable ASCII
  character stands for itself; the rest is escaped, above the basic plane as a
  surrogate pair.\<close>

definition escape_char :: "nat \<Rightarrow> pystr" where
  "escape_char c =
     (if c = 34 then [92, 34]
      else if c = 92 then [92, 92]
      else if c = 10 then [92, 110]
      else if c = 13 then [92, 114]
      else if c = 9 then [92, 116]
      else if c = 8 then [92, 98]
      else if c = 12 then [92, 102]
      else if 32 \<le> c \<and> c \<le> 126 then [c]
      else if c < 65536 then u_escape c
      else u_escape (55296 + ((c - 65536) div 1024) mod 1024)
           @ u_escape (56320 + (c - 65536) mod 1024))"

definition encode_basestring_ascii :: "pystr \<Rightarrow> pystr" where
  "encode_basestring_ascii s = [34] @ concat (map escape_char s) @ [34]"

fun dumps_value :: "jvalue \<Rightarrow> pystr" where
  "dumps_value (JStr s) = encode_basestring_ascii s"
| "dumps_value (JInt i) = show_int i"
| "dumps_value (JBool b) = (if b then str ''true'' else str ''false'')"

fun join :: "pystr \<Rightarrow> pystr list \<Rightarrow> pystr" where
  "join sep [] = []"
| "join sep [x] = x"
| "join sep (x # y # ys) = x @ sep @ join sep (y # ys)"

definition dumps_item :: "pystr \<times> jvalue \<Rightarrow> pystr" where
  "dumps_item kv = encode_basestring_ascii (fst kv) @ str '': '' @ dumps_value (snd kv)"

text \<open>\<^verbatim>\<open>json.dumps(d)\<close> with the default separators; the items keep the order in which
  the dictionary was built.\<close>

definition json_dumps :: "(pystr \<times> jvalue) list \<Rightarrow> pystr" where
  "json_dumps d = str ''{'' @ join (str '', '') (map dumps_item d) @ str ''}''"

subsection \<open>Reading a serialised document\<close>

text \<open>To say what a body contains, the bytes of the body are read back: the functions
  below scan a JSON document that is one flat object and give its members.\<close>

text \<open>A hexadecimal digit.\<close>

definition is_hex :: "nat \<Rightarrow> bool" where
  "is_hex c = (is_digit c \<or> (97 \<le> c \<and> c \<le> 102) \<or> (65 \<le> c \<and> c \<le> 70))"

text \<open>\<open>string_literal s\<close> reads a string literal whose opening quote has been taken
  off: it gives the text up to the closing quote, as written, and what follows that
  quote. A backslash goes with the character after it, which must be one of the escapes
  of JSON, the letter u with four hexadecimal digits behind it; a control character is
  not allowed.\<close>

fun string_literal :: "pystr \<Rightarrow> (pystr \<times> pystr) option" where
  "string_literal [] = None"
| "string_literal (c # cs) =
     (if c = 34 then Some ([], cs)
      else if c = 92 then
        (case cs of
           [] \<Rightarrow> None
         | d # ds \<Rightarrow>
             if d \<notin> set [34, 92, 47, 98, 102, 110, 114, 116, 117] then None
             else if d = 117 \<and> \<not> (4 \<le> length ds \<and> list_all is_hex (take 4 ds)) then None
             else (case string_literal ds of
                     None \<Rightarrow> None
                   | Some (t, r) \<Rightarrow> Some (c # d # t, r)))
      else if c < 32 then None
      else (case string_literal cs of None \<Rightarrow> None | Some (t, r) \<Rightarrow> Some (c # t, r)))"

text \<open>A number without fraction and exponent: digits, with or without a minus sign.\<close>

definition integer_literal :: "pystr \<Rightarrow> bool" where
  "integer_literal a =
     (case a of
        [] \<Rightarrow> False
      | c # cs \<Rightarrow> if c = 45 then cs \<noteq> [] \<and> list_all is_digit cs else list_all is_digit a)"

text \<open>\<open>json_value s\<close> reads one value from the front of \<open>s\<close>: a string literal, or
  the characters up to the next comma or closing brace, which must spell
  \<^verbatim>\<open>true\<close>, \<^verbatim>\<open>false\<close>, \<^verbatim>\<open>null\<close> or an integer. It gives the text of the value
  and the rest.\<close>

definition json_value :: "pystr \<Rightarrow> (pystr \<times> pystr) option" where
  "json_value s =
     (case s of
        [] \<Rightarrow> None
      | c # cs \<Rightarrow>
          if c = 34 then
            (case string_literal cs of None \<Rightarrow> None | Some (t, r) \<Rightarrow> Some (34 # t @ [34], r))
          else
            (case (takeWhile (\<lambda>x. x \<noteq> 44 \<and> x \<noteq> 125) s, dropWhile (\<lambda>x. x \<noteq> 44 \<and> x \<noteq> 125) s) of
               (a, r) \<Rightarrow>
                 if a = str ''true'' \<or> a = str ''false'' \<or> a = str ''null'' \<or> integer_literal a
                 then Some (a, r) else None))"

text \<open>\<open>after p s\<close>: what follows the prefix \<open>p\<close> of \<open>s\<close>.\<close>

definition after :: "pystr \<Rightarrow> pystr \<Rightarrow> pystr option" where
  "after p s = (if startswith s p then Some (drop (length p) s) else None)"

text \<open>The members of an object after its opening brace, up to the closing brace that
  ends the text: each a key and the text of its value, with the separators that
  \<^verbatim>\<open>json.dumps\<close> writes.\<close>

function object_members :: "pystr \<Rightarrow> (pystr \<times> pystr) list option" where
  "object_members s =
     (case after [34] s of
        None \<Rightarrow> None
      | Some s1 \<Rightarrow>
     (case string_literal s1 of
        None \<Rightarrow> None
      | Some (k, s2) \<Rightarrow>
     (case after (str '': '') s2 of
        None \<Rightarrow> None
      | Some s3 \<Rightarrow>
     (case json_value s3 of
        None \<Rightarrow> None
      | Some (v, s4) \<Rightarrow>
          if s4 = [125] then Some [(k, v)]
          else (case after (str '', '') s4 of
                  None \<Rightarrow> None
                | Some s5 \<Rightarrow>
                    (case object_members s5 of
                       None \<Rightarrow> None
                     | Some ms \<Rightarrow> Some ((k, v) # ms)))))))"
  by pat_completeness auto
termination
proof -
  have sl: "\<And>s t r. string_literal s = Some (t, r) \<Longrightarrow> length r < length s"
  proof -
    fix s t r show "string_literal s = Some (t, r) \<Longrightarrow> length r < length s"
    proof (induction s arbitrary: t r rule: string_literal.induct)
      case 1
      then show ?case by simp
    next
      case (2 c cs)
      then show ?case
        by (fastforce split: if_splits list.splits option.splits)
    qed
  qed
  have af: "\<And>p s r. after p s = Some r \<Longrightarrow> length r \<le> length s"
    by (auto simp: after_def split: if_splits)
  have jv: "\<And>s v r. json_value s = Some (v, r) \<Longrightarrow> length r \<le> length s"
    by (auto simp: json_value_def le_SucI length_dropWhile_le
          split: list.splits if_splits option.splits dest!: sl)
  show ?thesis
  proof (relation "measure length")
    show "wf (measure length)" by simp
  next
    fix s s1 x k s2 s3 y v s4 s5
    assume "after [34] s = Some s1" "string_literal s1 = Some x" "(k, s2) = x"
      "after (str '': '') s2 = Some s3" "json_value s3 = Some y" "(v, s4) = y"
      "after (str '', '') s4 = Some s5"
    then have "length s1 \<le> length s" "length s2 < length s1" "length s3 \<le> length s2"
      "length s4 \<le> length s3" "length s5 \<le> length s4"
      using af sl jv by auto
    then show "(s5, s) \<in> measure length" by simp
  qed
qed

declare object_members.simps [simp del]

text \<open>The members of a document that is one flat object, in the order of the document.\<close>

definition json_object :: "bytes \<Rightarrow> (pystr \<times> pystr) list option" where
  "json_object b =
     (case after (str ''{'') b of
        None \<Rightarrow> None
      | Some r \<Rightarrow> if r = str ''}'' then Some [] else object_members r)"

subsection \<open>UTF-8\<close>

text \<open>\<^verbatim>\<open>s.encode("utf-8")\<close>: a surrogate or a value beyond U+10FFFF raises
  \<^verbatim>\<open>UnicodeEncodeError\<close> (\<open>None\<close>).\<close>

definition encode_char :: "nat \<Rightarrow> bytes option" where
  "encode_char c =
     (if c < 128 then Some [c]
      else if c < 2048 then Some [192 + c div 64, 128 + c mod 64]
      else if c < 65536 then
        (if 55296 \<le> c \<and> c \<le> 57343 then None
         else Some [224 + c div 4096, 128 + c div 64 mod 64, 128 + c mod 64])
      else if c < 1114112 then
        Some [240 + c div 262144, 128 + c div 4096 mod 64, 128 + c div 64 mod 64, 128 + c mod 64]
      else None)"

fun utf8_encode :: "pystr \<Rightarrow> bytes option" where
  "utf8_encode [] = Some []"
| "utf8_encode (c # cs) =
     (case encode_char c of
        None \<Rightarrow> None
      | Some bs \<Rightarrow> (case utf8_encode cs of None \<Rightarrow> None | Some r \<Rightarrow> Some (bs @ r)))"

definition continuation :: "nat \<Rightarrow> bool" where
  "continuation b = (128 \<le> b \<and> b \<le> 191)"

text \<open>The strict decoder of \<^verbatim>\<open>b.decode("utf-8")\<close> on the first character of a byte
  string: the code point and the bytes left, or \<open>None\<close> where Python raises
  \<^verbatim>\<open>UnicodeDecodeError\<close> (a stray or missing continuation byte, an overlong form, a
  surrogate, a value beyond U+10FFFF). After the lead bytes E0, ED, F0 and F4 the
  second byte has a narrower range than a plain continuation byte.\<close>

definition decode_one :: "bytes \<Rightarrow> (nat \<times> bytes) option" where
  "decode_one bs =
     (case bs of
        [] \<Rightarrow> None
      | b0 # r0 \<Rightarrow>
          if b0 < 128 then Some (b0, r0)
          else if 194 \<le> b0 \<and> b0 \<le> 223 then
            (case r0 of
               b1 # r1 \<Rightarrow>
                 if continuation b1 then Some ((b0 - 192) * 64 + (b1 - 128), r1) else None
             | _ \<Rightarrow> None)
          else if 224 \<le> b0 \<and> b0 \<le> 239 then
            (case r0 of
               b1 # b2 # r2 \<Rightarrow>
                 if (if b0 = 224 then 160 else 128) \<le> b1
                    \<and> b1 \<le> (if b0 = 237 then 159 else 191) \<and> continuation b2
                 then Some ((b0 - 224) * 4096 + (b1 - 128) * 64 + (b2 - 128), r2)
                 else None
             | _ \<Rightarrow> None)
          else if 240 \<le> b0 \<and> b0 \<le> 244 then
            (case r0 of
               b1 # b2 # b3 # r3 \<Rightarrow>
                 if (if b0 = 240 then 144 else 128) \<le> b1
                    \<and> b1 \<le> (if b0 = 244 then 143 else 191)
                    \<and> continuation b2 \<and> continuation b3
                 then Some ((b0 - 240) * 262144 + (b1 - 128) * 4096 + (b2 - 128) * 64
                            + (b3 - 128), r3)
                 else None
             | _ \<Rightarrow> None)
          else None)"

function utf8_decode :: "bytes \<Rightarrow> pystr option" where
  "utf8_decode bs =
     (if bs = [] then Some []
      else (case decode_one bs of
              None \<Rightarrow> None
            | Some (c, r) \<Rightarrow> (case utf8_decode r of None \<Rightarrow> None | Some t \<Rightarrow> Some (c # t))))"
  by pat_completeness auto
termination
  by (relation "measure length")
    (auto simp: decode_one_def split: list.splits if_splits)

declare utf8_decode.simps [simp del]

subsection \<open>The environment\<close>

type_synonym environ = "pystr \<rightharpoonup> pystr"

text \<open>\<^verbatim>\<open>os.environ[k]\<close> raises \<^verbatim>\<open>KeyError\<close> for a variable that is not set;
  \<^verbatim>\<open>os.environ.get(k, d)\<close> gives the default instead.\<close>

definition environ_getitem :: "environ \<Rightarrow> pystr \<Rightarrow> exn + pystr" where
  "environ_getitem env k = (case env k of None \<Rightarrow> Inl (KeyError k) | Some v \<Rightarrow> Inr v)"

definition environ_get :: "environ \<Rightarrow> pystr \<Rightarrow> pystr \<Rightarrow> pystr" where
  "environ_get env k d = (case env k of None \<Rightarrow> d | Some v \<Rightarrow> v)"

text \<open>The local variables of lines 11 to 17.\<close>

record inputs =
  version :: pystr
  channel :: pystr
  release_notes :: pystr
  github_repo :: pystr
  signature :: pystr
  file_size :: int
  api_token :: pystr

text \<open>Lines 11 to 17, in the order of the source: the first failing line decides the
  exception.\<close>

definition read_inputs :: "platform \<Rightarrow> environ \<Rightarrow> exn + inputs" where
  "read_inputs pf env =
     (case environ_getitem env (str ''VERSION'') of
        Inl e \<Rightarrow> Inl e
      | Inr v \<Rightarrow>
     (case environ_getitem env (str ''SPARKLE_SIGNATURE'') of
        Inl e \<Rightarrow> Inl e
      | Inr sg \<Rightarrow>
     (case environ_getitem env (str ''FILE_SIZE'') of
        Inl e \<Rightarrow> Inl e
      | Inr fs \<Rightarrow>
     (case py_int pf fs of
        Inl e \<Rightarrow> Inl e
      | Inr n \<Rightarrow>
     (case environ_getitem env (str ''INTERNAL_API_TOKEN'') of
        Inl e \<Rightarrow> Inl e
      | Inr tok \<Rightarrow>
          Inr \<lparr> version = v,
                channel = channel_of v,
                release_notes = environ_get env (str ''RELEASE_NOTES'') [],
                github_repo = environ_get env (str ''GITHUB_REPOSITORY'')
                                (str ''foxwise-ai/TheQuickFox''),
                signature = sg,
                file_size = n,
                api_token = tok \<rparr>)))))"

subsection \<open>The payload and the request\<close>

text \<open>Line 24, the f-string of the download address.\<close>

definition download_url_of :: "pystr \<Rightarrow> pystr \<Rightarrow> pystr" where
  "download_url_of repo v =
     str ''https://github.com/'' @ repo @ str ''/releases/download/v'' @ v
     @ str ''/TheQuickFox-'' @ v @ str ''.zip''"

text \<open>Lines 19 to 30: the dictionary, its ten items in the order of the source; \<open>now\<close>
  is the reading of \<^verbatim>\<open>datetime.utcnow()\<close> on line 29.\<close>

definition payload_of :: "inputs \<Rightarrow> datetime \<Rightarrow> (pystr \<times> jvalue) list" where
  "payload_of i now =
     [(str ''version'', JStr (version i)),
      (str ''build_number'', JStr (version i)),
      (str ''channel'', JStr (channel i)),
      (str ''release_notes'', JStr (release_notes i)),
      (str ''download_url'', JStr (download_url_of (github_repo i) (version i))),
      (str ''signature'', JStr (signature i)),
      (str ''file_size'', JInt (file_size i)),
      (str ''minimum_os_version'', JStr (str ''13.0'')),
      (str ''is_critical'', JBool False),
      (str ''published_at'', JStr (strftime now))]"

text \<open>The arguments of \<^verbatim>\<open>Request(...)\<close> on lines 33 to 41.\<close>

record request =
  url :: pystr
  data :: bytes
  headers :: "(pystr \<times> pystr) list"
  http_method :: pystr

text \<open>Lines 32 to 41; \<^verbatim>\<open>.encode("utf-8")\<close> is the one call that can raise here.\<close>

definition build_request :: "inputs \<Rightarrow> (pystr \<times> jvalue) list \<Rightarrow> exn + request" where
  "build_request i payload =
     (case utf8_encode (json_dumps payload) of
        None \<Rightarrow> Inl UnicodeEncodeError
      | Some d \<Rightarrow>
          Inr \<lparr> url = str ''https://api.thequickfox.ai/api/v1/internal/releases'',
                data = d,
                headers = [(str ''Authorization'', str ''Bearer '' @ api_token i),
                           (str ''Content-Type'', str ''application/json'')],
                http_method = str ''POST'' \<rparr>)"

subsection \<open>The network and \<^verbatim>\<open>urlopen\<close>\<close>

text \<open>What the network does with a request: the final response, with its status code and
  what \<^verbatim>\<open>read()\<close> will give (the body, or an exception when the connection breaks),
  or no response at all and the exception the transport raises.\<close>

datatype body_read = Body bytes | ReadError exn

datatype reply = Reply nat body_read | NoReply exn

text \<open>The three ways \<^verbatim>\<open>urlopen(req)\<close> comes back. The standard opener returns a
  response only for a status from 200 to 299 and raises \<^verbatim>\<open>HTTPError\<close>, which carries
  the status and the body, for every other status.\<close>

datatype outcome = Returns nat body_read | RaisesHTTPError nat body_read | Raises exn

definition urlopen :: "(request \<Rightarrow> reply) \<Rightarrow> request \<Rightarrow> outcome" where
  "urlopen net req =
     (case net req of
        Reply code rd \<Rightarrow>
          if 200 \<le> code \<and> code < 300 then Returns code rd else RaisesHTTPError code rd
      | NoReply e \<Rightarrow> Raises e)"

text \<open>Standard output is a text stream with an encoding and a buffer.
  \<open>stdout_write w k s\<close> is what the stream does with the text \<open>s\<close> of the call of
  \<^verbatim>\<open>print\<close> that comes after \<open>k\<close> calls: \<open>None\<close> when it takes the line, or the
  exception that \<^verbatim>\<open>print\<close> raises, \<^verbatim>\<open>UnicodeEncodeError\<close> when the encoding of the
  stream has no code for a character of \<open>s\<close>, an \<^verbatim>\<open>OSError\<close> when the stream cannot
  be written. \<open>stdout_flush_fails w\<close> says that the lines still in the buffer cannot be
  written out when the interpreter exits.\<close>

record world =
  environ :: environ
  utcnow :: "nat \<Rightarrow> datetime"
  network :: "request \<Rightarrow> reply"
  stdout_write :: "nat \<Rightarrow> pystr \<Rightarrow> exn option"
  stdout_flush_fails :: bool

subsection \<open>\<^verbatim>\<open>main()\<close>\<close>

text \<open>What a run leaves behind: the lines that \<^verbatim>\<open>print\<close> has written, the exit code of
  the process, the exception that left \<^verbatim>\<open>main()\<close> uncaught (the interpreter prints its
  traceback on standard error and exits with 1), the requests handed to \<^verbatim>\<open>urlopen\<close>,
  and how often the clock was read.\<close>

record result =
  stdout :: "pystr list"
  exit_code :: nat
  uncaught :: "exn option"
  requests :: "request list"
  clock_reads :: nat

text \<open>\<^verbatim>\<open>r.read().decode("utf-8")\<close>.\<close>

definition read_decode :: "body_read \<Rightarrow> exn + pystr" where
  "read_decode r =
     (case r of
        ReadError e \<Rightarrow> Inl e
      | Body b \<Rightarrow> (case utf8_decode b of None \<Rightarrow> Inl UnicodeDecodeError | Some t \<Rightarrow> Inr t))"

definition status_line :: "nat \<Rightarrow> pystr" where
  "status_line status = str ''HTTP Status: '' @ show_nat status"

definition response_line :: "pystr \<Rightarrow> pystr" where
  "response_line body = str ''Response: '' @ body"

definition failed_line :: pystr where
  "failed_line = 10060 # str '' Failed to create release record''"

definition created_line :: pystr where
  "created_line = 9989 # str '' Release record created successfully''"

text \<open>Calls of \<^verbatim>\<open>print\<close> one after the other, the lines \<open>out\<close> being written
  already: the lines written in the end and the exception of the first call that raises,
  after which no further call is made.\<close>

fun print_lines ::
  "(nat \<Rightarrow> pystr \<Rightarrow> exn option) \<Rightarrow> pystr list \<Rightarrow> pystr list \<Rightarrow> pystr list \<times> exn option" where
  "print_lines wr out [] = (out, None)"
| "print_lines wr out (s # ss) =
     (case wr (length out) s of
        Some e \<Rightarrow> (out, Some e)
      | None \<Rightarrow> print_lines wr (out @ [s]) ss)"

text \<open>Lines 43 to 59: what is printed, the exit code and the uncaught exception. On line
  46 the body is read and decoded before anything is printed; on lines 56 and 57 the status
  is printed before the body is read. An exception of \<open>read_decode\<close> or of \<^verbatim>\<open>print\<close>
  is not an \<^verbatim>\<open>HTTPError\<close> and leaves \<^verbatim>\<open>main()\<close>, also when it is raised in the
  handler of line 55; \<^verbatim>\<open>sys.exit(1)\<close> ends the process with 1 and no traceback.\<close>

definition handle_outcome ::
  "(nat \<Rightarrow> pystr \<Rightarrow> exn option) \<Rightarrow> outcome \<Rightarrow> pystr list \<times> nat \<times> exn option" where
  "handle_outcome wr out =
     (case out of
        Returns status rd \<Rightarrow>
          (case read_decode rd of
             Inl e \<Rightarrow> ([], 1, Some e)
           | Inr body \<Rightarrow>
               (case print_lines wr [] [status_line status, response_line body] of
                  (printed, Some e) \<Rightarrow> (printed, 1, Some e)
                | (printed, None) \<Rightarrow>
                    if status \<noteq> 201
                    then (case print_lines wr printed [failed_line] of
                            (printed', Some e) \<Rightarrow> (printed', 1, Some e)
                          | (printed', None) \<Rightarrow> (printed', 1, None))
                    else (case print_lines wr printed [created_line] of
                            (printed', Some e) \<Rightarrow> (printed', 1, Some e)
                          | (printed', None) \<Rightarrow> (printed', 0, None))))
      | RaisesHTTPError code rd \<Rightarrow>
          (case print_lines wr [] [status_line code] of
             (printed, Some e) \<Rightarrow> (printed, 1, Some e)
           | (printed, None) \<Rightarrow>
               (case read_decode rd of
                  Inl e \<Rightarrow> (printed, 1, Some e)
                | Inr body \<Rightarrow>
                    (case print_lines wr printed [response_line body, failed_line] of
                       (printed', Some e) \<Rightarrow> (printed', 1, Some e)
                     | (printed', None) \<Rightarrow> (printed', 1, None))))
      | Raises e \<Rightarrow> ([], 1, Some e))"

text \<open>The end of the process: the interpreter flushes standard output, and when that
  fails it exits with 120 whatever the exit code was. There is something to flush only
  when \<^verbatim>\<open>print\<close> has written a line.\<close>

definition finalize ::
  "world \<Rightarrow> pystr list \<times> nat \<times> exn option \<Rightarrow> pystr list \<times> nat \<times> exn option" where
  "finalize w r =
     (case r of
        (printed, code, exc) \<Rightarrow>
          (printed, (if printed \<noteq> [] \<and> stdout_flush_fails w then 120 else code), exc))"

definition main :: "platform \<Rightarrow> world \<Rightarrow> result" where
  "main pf w =
     (case read_inputs pf (environ w) of
        Inl e \<Rightarrow>
          \<lparr> stdout = [], exit_code = 1, uncaught = Some e, requests = [], clock_reads = 0 \<rparr>
      | Inr i \<Rightarrow>
          (case build_request i (payload_of i (utcnow w 0)) of
             Inl e \<Rightarrow>
               \<lparr> stdout = [], exit_code = 1, uncaught = Some e, requests = [],
                 clock_reads = 1 \<rparr>
           | Inr req \<Rightarrow>
               (case finalize w (handle_outcome (stdout_write w) (urlopen (network w) req)) of
                  (out, code, exc) \<Rightarrow>
                    \<lparr> stdout = out, exit_code = code, uncaught = exc, requests = [req],
                      clock_reads = 1 \<rparr>)))"

subsection \<open>Notions used to state the properties\<close>

text \<open>A string of printable ASCII characters only.\<close>

definition printable :: "pystr \<Rightarrow> bool" where
  "printable s = list_all (\<lambda>c. 32 \<le> c \<and> c \<le> 126) s"

text \<open>The configuration errors of the specification: a required variable that is not
  set (the \<^verbatim>\<open>KeyError\<close> of its name) or a \<^verbatim>\<open>FILE_SIZE\<close> that \<^verbatim>\<open>int()\<close> rejects.\<close>

fun config_error :: "exn \<Rightarrow> bool" where
  "config_error (KeyError k) =
     (k = str ''VERSION'' \<or> k = str ''SPARKLE_SIGNATURE'' \<or> k = str ''FILE_SIZE''
      \<or> k = str ''INTERNAL_API_TOKEN'')"
| "config_error ValueError = True"
| "config_error UnicodeDecodeError = False"
| "config_error UnicodeEncodeError = False"
| "config_error (URLError m) = False"
| "config_error (OSError m) = False"

text \<open>\<open>matches_format s p\<close>: \<open>s\<close> has the shape \<open>p\<close>, where a \<open>#\<close> of the
  pattern stands for one decimal digit and every other character for itself.\<close>

fun matches_format :: "pystr \<Rightarrow> pystr \<Rightarrow> bool" where
  "matches_format [] [] = True"
| "matches_format (c # cs) (p # ps) =
     ((if p = 35 then is_digit c else c = p) \<and> matches_format cs ps)"
| "matches_format [] (p # ps) = False"
| "matches_format (c # cs) [] = False"

text \<open>The readings of the clock for which \<^verbatim>\<open>%Y\<close> gives four digits: the ranges of the
  fields of a Python \<^verbatim>\<open>datetime\<close>, with the year from 1000 on.\<close>

definition four_digit_datetime :: "datetime \<Rightarrow> bool" where
  "four_digit_datetime d =
     (1000 \<le> year d \<and> year d \<le> 9999 \<and> 1 \<le> month d \<and> month d \<le> 12
      \<and> 1 \<le> day d \<and> day d \<le> 31 \<and> hour d < 24 \<and> minute d < 60 \<and> second d < 60)"


text \<open>A Python build, an environment and a clock to run the model on: the build knows
  the no-break space and the Arabic-Indic digits and has the usual limit of 4300 digits.\<close>

definition sample_platform :: platform where
  "sample_platform =
     \<lparr> unicode_isspace = (\<lambda>c. c = 160),
       unicode_todecimal = (\<lambda>c. if 1632 \<le> c \<and> c \<le> 1641 then Some (c - 1632) else None),
       int_max_str_digits = 4300 \<rparr>"

definition sample_environ :: "pystr \<Rightarrow> environ" where
  "sample_environ fs =
     [str ''VERSION'' \<mapsto> str ''1.2.3-beta.1'',
      str ''SPARKLE_SIGNATURE'' \<mapsto> str ''c2ln'',
      str ''FILE_SIZE'' \<mapsto> fs,
      str ''INTERNAL_API_TOKEN'' \<mapsto> str ''s3cr3t'']"

definition sample_now :: datetime where
  "sample_now = \<lparr> year = 2024, month = 1, day = 2, hour = 3, minute = 4, second = 5 \<rparr>"

text \<open>The world in which \<^verbatim>\<open>FILE_SIZE\<close> is \<open>fs\<close> and the network answers every
  request with \<open>r\<close>; standard output takes every line.\<close>

definition sample_world :: "pystr \<Rightarrow> reply \<Rightarrow> world" where
  "sample_world fs r =
     \<lparr> environ = sample_environ fs, utcnow = (\<lambda>k. sample_now), network = (\<lambda>req. r),
       stdout_write = (\<lambda>k s. None), stdout_flush_fails = False \<rparr>"

text \<open>The same world with a standard output whose encoding is ASCII, as under
  \<^verbatim>\<open>PYTHONIOENCODING=ascii\<close>.\<close>

definition sample_world_ascii :: "reply \<Rightarrow> world" where
  "sample_world_ascii r =
     (sample_world (str ''1024'') r)
       \<lparr> stdout_write :=
           (\<lambda>k s. if list_all (\<lambda>c. c < 128) s then None else Some UnicodeEncodeError) \<rparr>"

text \<open>The same world with the two optional variables set.\<close>

definition sample_world_optionals :: world where
  "sample_world_optionals =
     \<lparr> environ = (sample_environ (str ''1024''))
                   (str ''RELEASE_NOTES'' \<mapsto> str ''Faster start'',
                    str ''GITHUB_REPOSITORY'' \<mapsto> str ''acme/fox''),
       utcnow = (\<lambda>k. sample_now),
       network = (\<lambda>req. Reply 201 (Body [])),
       stdout_write = (\<lambda>k s. None), stdout_flush_fails = False \<rparr>"

text \<open>The six variables that \<^verbatim>\<open>main()\<close> reads, and the ten keys of the release
  record of the specification.\<close>

definition input_names :: "pystr list" where
  "input_names =
     [str ''VERSION'', str ''RELEASE_NOTES'', str ''GITHUB_REPOSITORY'',
      str ''SPARKLE_SIGNATURE'', str ''FILE_SIZE'', str ''INTERNAL_API_TOKEN'']"

definition field_names :: "pystr list" where
  "field_names =
     [str ''version'', str ''build_number'', str ''channel'', str ''release_notes'',
      str ''download_url'', str ''signature'', str ''file_size'', str ''minimum_os_version'',
      str ''is_critical'', str ''published_at'']"

text \<open>A world that differs from \<open>sample_world (str ''1024'') r\<close> in a variable the
  script does not read, in the later readings of the clock and in the network.\<close>

definition sample_world_other :: world where
  "sample_world_other =
     \<lparr> environ = (sample_environ (str ''1024''))(str ''HOME'' \<mapsto> str ''/root''),
       utcnow = (\<lambda>k. if k = 0 then sample_now else sample_now \<lparr> second := 6 \<rparr>),
       network = (\<lambda>req. NoReply (URLError (str ''Connection refused''))),
       stdout_write = (\<lambda>k s. None), stdout_flush_fails = False \<rparr>"

section \<open>Properties\<close>

subsection \<open>The serialised document is printable ASCII\<close>

lemma printable_append [simp]: "printable (a @ b) \<longleftrightarrow> printable a \<and> printable b"
  by (simp add: printable_def)

lemma printable_Cons [simp]: "printable (c # s) \<longleftrightarrow> 32 \<le> c \<and> c \<le> 126 \<and> printable s"
  by (simp add: printable_def)

lemma printable_Nil [simp]: "printable []"
  by (simp add: printable_def)

lemma printable_show_nat: "printable (show_nat n)"
proof (induction n rule: show_nat.induct)
  case (1 n)
  show ?case
  proof (cases "n < 10")
    case True
    then show ?thesis by (simp add: show_nat.simps [of n])
  next
    case False
    have "n mod 10 < 10" by simp
    then have "48 + n mod 10 \<le> 126" by linarith
    with False 1 show ?thesis by (simp add: show_nat.simps [of n])
  qed
qed

lemma printable_show_int: "printable (show_int i)"
  by (simp add: show_int_def printable_show_nat)

lemma hex_digit_printable: "d < 16 \<Longrightarrow> 32 \<le> hex_digit d \<and> hex_digit d \<le> 126"
  by (simp add: hex_digit_def)

lemma printable_u_escape: "printable (u_escape n)"
  by (simp add: u_escape_def hex_digit_printable)

lemma printable_escape_char: "printable (escape_char c)"
  by (simp add: escape_char_def printable_u_escape)

lemma printable_concat: "(\<And>x. x \<in> set xs \<Longrightarrow> printable x) \<Longrightarrow> printable (concat xs)"
  by (induction xs) auto

lemma printable_basestring: "printable (encode_basestring_ascii s)"
proof -
  have "printable (concat (map escape_char s))"
    by (rule printable_concat) (auto simp: printable_escape_char)
  then show ?thesis by (simp add: encode_basestring_ascii_def)
qed

lemma printable_dumps_value: "printable (dumps_value v)"
  by (cases v) (simp_all add: printable_basestring printable_show_int str_def)

lemma printable_dumps_item: "printable (dumps_item kv)"
  by (simp add: dumps_item_def printable_basestring printable_dumps_value str_def)

lemma printable_join: "printable sep \<Longrightarrow> (\<And>x. x \<in> set xs \<Longrightarrow> printable x) \<Longrightarrow> printable (join sep xs)"
  by (induction sep xs rule: join.induct) auto

lemma printable_json_dumps: "printable (json_dumps d)"
  by (auto simp: json_dumps_def str_def printable_dumps_item intro!: printable_join)

lemma utf8_encode_printable: "printable s \<Longrightarrow> utf8_encode s = Some s"
  by (induction s) (auto simp: encode_char_def)

lemma build_request_ok:
  "build_request i p =
     Inr \<lparr> url = str ''https://api.thequickfox.ai/api/v1/internal/releases'',
           data = json_dumps p,
           headers = [(str ''Authorization'', str ''Bearer '' @ api_token i),
                      (str ''Content-Type'', str ''application/json'')],
           http_method = str ''POST'' \<rparr>"
  by (simp add: build_request_def utf8_encode_printable printable_json_dumps)


subsection \<open>The shape of a run\<close>

lemma main_config_error:
  "read_inputs pf (environ w) = Inl e \<Longrightarrow>
   main pf w = \<lparr> stdout = [], exit_code = 1, uncaught = Some e, requests = [], clock_reads = 0 \<rparr>"
  by (simp add: main_def)

lemma main_submits:
  assumes "read_inputs pf (environ w) = Inr i"
  shows "\<exists>req. build_request i (payload_of i (utcnow w 0)) = Inr req
           \<and> data req = json_dumps (payload_of i (utcnow w 0))
           \<and> main pf w =
               \<lparr> stdout = fst (finalize w (handle_outcome (stdout_write w) (urlopen (network w) req))),
                 exit_code = fst (snd (finalize w (handle_outcome (stdout_write w) (urlopen (network w) req)))),
                 uncaught = snd (snd (finalize w (handle_outcome (stdout_write w) (urlopen (network w) req)))),
                 requests = [req], clock_reads = 1 \<rparr>"
  using assms by (simp add: main_def build_request_ok split: prod.split)

lemma main_sent_request:
  assumes "requests (main pf w) = [req]"
  shows "\<exists>i. read_inputs pf (environ w) = Inr i
           \<and> build_request i (payload_of i (utcnow w 0)) = Inr req
           \<and> data req = json_dumps (payload_of i (utcnow w 0))
           \<and> main pf w =
               \<lparr> stdout = fst (finalize w (handle_outcome (stdout_write w) (urlopen (network w) req))),
                 exit_code = fst (snd (finalize w (handle_outcome (stdout_write w) (urlopen (network w) req)))),
                 uncaught = snd (snd (finalize w (handle_outcome (stdout_write w) (urlopen (network w) req)))),
                 requests = [req], clock_reads = 1 \<rparr>"
proof (cases "read_inputs pf (environ w)")
  case (Inl e)
  then have "requests (main pf w) = []" by (simp add: main_config_error)
  with assms show ?thesis by simp
next
  case (Inr i)
  from main_submits [OF Inr] obtain r where
    r: "build_request i (payload_of i (utcnow w 0)) = Inr r"
       "data r = json_dumps (payload_of i (utcnow w 0))"
       "main pf w =
               \<lparr> stdout = fst (finalize w (handle_outcome (stdout_write w) (urlopen (network w) r))),
                 exit_code = fst (snd (finalize w (handle_outcome (stdout_write w) (urlopen (network w) r)))),
                 uncaught = snd (snd (finalize w (handle_outcome (stdout_write w) (urlopen (network w) r)))),
                 requests = [r], clock_reads = 1 \<rparr>"
    by blast
  from r(3) have "requests (main pf w) = [r]" by simp
  with assms have "r = req" by simp
  with r Inr show ?thesis by blast
qed

lemma read_inputs_ok:
  assumes "env (str ''VERSION'') = Some v" "env (str ''SPARKLE_SIGNATURE'') = Some sg"
    "env (str ''FILE_SIZE'') = Some fs" "py_int pf fs = Inr n"
    "env (str ''INTERNAL_API_TOKEN'') = Some tok"
  shows "read_inputs pf env =
     Inr \<lparr> version = v, channel = channel_of v,
           release_notes = environ_get env (str ''RELEASE_NOTES'') [],
           github_repo = environ_get env (str ''GITHUB_REPOSITORY'') (str ''foxwise-ai/TheQuickFox''),
           signature = sg, file_size = n, api_token = tok \<rparr>"
  using assms by (simp add: read_inputs_def environ_getitem_def)

lemma read_inputs_sound:
  assumes "read_inputs pf env = Inr i"
  shows "env (str ''VERSION'') = Some (version i)
       \<and> env (str ''SPARKLE_SIGNATURE'') = Some (signature i)
       \<and> (\<exists>fs. env (str ''FILE_SIZE'') = Some fs \<and> py_int pf fs = Inr (file_size i))
       \<and> env (str ''INTERNAL_API_TOKEN'') = Some (api_token i)
       \<and> channel i = channel_of (version i)
       \<and> release_notes i = environ_get env (str ''RELEASE_NOTES'') []
       \<and> github_repo i = environ_get env (str ''GITHUB_REPOSITORY'') (str ''foxwise-ai/TheQuickFox'')"
  using assms
  by (auto simp: read_inputs_def environ_getitem_def split: option.splits sum.splits)

lemma py_int_1024: "py_int pf (str ''1024'') = Inr 1024"
  by (simp add: py_int_def transform_decimal_and_space_def ascii_isspace_def split_sign_def
        is_digit_def digits_value_def str_def)

lemma sample_inputs:
  "read_inputs sample_platform (environ (sample_world (str ''1024'') r)) =
     Inr \<lparr> version = str ''1.2.3-beta.1'', channel = channel_of (str ''1.2.3-beta.1''),
           release_notes = [], github_repo = str ''foxwise-ai/TheQuickFox'',
           signature = str ''c2ln'', file_size = 1024, api_token = str ''s3cr3t'' \<rparr>"
proof -
  let ?env = "environ (sample_world (str ''1024'') r)"
  have "?env (str ''VERSION'') = Some (str ''1.2.3-beta.1'')"
       "?env (str ''SPARKLE_SIGNATURE'') = Some (str ''c2ln'')"
       "?env (str ''FILE_SIZE'') = Some (str ''1024'')"
       "?env (str ''INTERNAL_API_TOKEN'') = Some (str ''s3cr3t'')"
       "?env (str ''RELEASE_NOTES'') = None"
       "?env (str ''GITHUB_REPOSITORY'') = None"
    by (simp_all add: sample_world_def sample_environ_def str_def)
  then show ?thesis
    using py_int_1024 [of sample_platform]
    by (simp add: read_inputs_ok [where env = ?env and pf = sample_platform] environ_get_def)
qed







lemma sample_run:
  "\<exists>req. requests (main sample_platform (sample_world (str ''1024'') r)) = [req]
         \<and> network (sample_world (str ''1024'') r) req = r"
proof -
  from main_submits [OF sample_inputs] obtain req where
    "main sample_platform (sample_world (str ''1024'') r) =
       \<lparr> stdout = fst (finalize (sample_world (str ''1024'') r) (handle_outcome (stdout_write (sample_world (str ''1024'') r)) (urlopen (network (sample_world (str ''1024'') r)) req))),
         exit_code = fst (snd (finalize (sample_world (str ''1024'') r) (handle_outcome (stdout_write (sample_world (str ''1024'') r)) (urlopen (network (sample_world (str ''1024'') r)) req)))),
         uncaught = snd (snd (finalize (sample_world (str ''1024'') r) (handle_outcome (stdout_write (sample_world (str ''1024'') r)) (urlopen (network (sample_world (str ''1024'') r)) req)))),
         requests = [req], clock_reads = 1 \<rparr>"
    by blast
  then have "requests (main sample_platform (sample_world (str ''1024'') r)) = [req]" by simp
  moreover have "network (sample_world (str ''1024'') r) req = r" by (simp add: sample_world_def)
  ultimately show ?thesis by blast
qed

lemma payload_lookup:
  "map_of (payload_of i now) (str ''version'') = Some (JStr (version i))"
  "map_of (payload_of i now) (str ''build_number'') = Some (JStr (version i))"
  "map_of (payload_of i now) (str ''channel'') = Some (JStr (channel i))"
  "map_of (payload_of i now) (str ''release_notes'') = Some (JStr (release_notes i))"
  "map_of (payload_of i now) (str ''download_url'')
     = Some (JStr (download_url_of (github_repo i) (version i)))"
  "map_of (payload_of i now) (str ''signature'') = Some (JStr (signature i))"
  "map_of (payload_of i now) (str ''file_size'') = Some (JInt (file_size i))"
  "map_of (payload_of i now) (str ''minimum_os_version'') = Some (JStr (str ''13.0''))"
  "map_of (payload_of i now) (str ''is_critical'') = Some (JBool False)"
  "map_of (payload_of i now) (str ''published_at'') = Some (JStr (strftime now))"
  by (simp_all add: payload_of_def str_def)

lemma sent_payload:
  assumes "requests (main pf w) = [req]"
  shows "\<exists>i. read_inputs pf (environ w) = Inr i
           \<and> data req = json_dumps (payload_of i (utcnow w 0))"
  using main_sent_request [OF assms] by blast

lemma sample_environ_lookup:
  "environ (sample_world fs r) (str ''VERSION'') = Some (str ''1.2.3-beta.1'')"
  "environ (sample_world fs r) (str ''RELEASE_NOTES'') = None"
  "environ (sample_world fs r) (str ''GITHUB_REPOSITORY'') = None"
  "utcnow (sample_world fs r) k = sample_now"
  by (simp_all add: sample_world_def sample_environ_def str_def)

lemma sample_optionals_lookup:
  "environ sample_world_optionals (str ''VERSION'') = Some (str ''1.2.3-beta.1'')"
  "environ sample_world_optionals (str ''SPARKLE_SIGNATURE'') = Some (str ''c2ln'')"
  "environ sample_world_optionals (str ''FILE_SIZE'') = Some (str ''1024'')"
  "environ sample_world_optionals (str ''INTERNAL_API_TOKEN'') = Some (str ''s3cr3t'')"
  "environ sample_world_optionals (str ''RELEASE_NOTES'') = Some (str ''Faster start'')"
  "environ sample_world_optionals (str ''GITHUB_REPOSITORY'') = Some (str ''acme/fox'')"
  "utcnow sample_world_optionals k = sample_now"
  by (simp_all add: sample_world_optionals_def sample_environ_def str_def)

lemma sample_optionals_run:
  "\<exists>req. requests (main sample_platform sample_world_optionals) = [req]"
proof -
  have "\<exists>i. read_inputs sample_platform (environ sample_world_optionals) = Inr i"
    using py_int_1024 [of sample_platform]
    by (simp add: read_inputs_ok [where env = "environ sample_world_optionals"
          and pf = sample_platform] sample_optionals_lookup)
  then obtain i where "read_inputs sample_platform (environ sample_world_optionals) = Inr i"
    by blast
  from main_submits [OF this] obtain req where
    "main sample_platform sample_world_optionals =
       \<lparr> stdout = fst (finalize sample_world_optionals (handle_outcome (stdout_write sample_world_optionals) (urlopen (network sample_world_optionals) req))),
         exit_code = fst (snd (finalize sample_world_optionals (handle_outcome (stdout_write sample_world_optionals) (urlopen (network sample_world_optionals) req)))),
         uncaught = snd (snd (finalize sample_world_optionals (handle_outcome (stdout_write sample_world_optionals) (urlopen (network sample_world_optionals) req)))),
         requests = [req], clock_reads = 1 \<rparr>"
    by blast
  then have "requests (main sample_platform sample_world_optionals) = [req]" by simp
  then show ?thesis by blast
qed

lemma two_digits_explicit: "n < 100 \<Longrightarrow> two_digits n = [48 + n div 10, 48 + n mod 10]"
proof -
  assume n: "n < 100"
  show ?thesis
  proof (cases "n < 10")
    case True
    then show ?thesis by (simp add: two_digits_def show_nat.simps [of n])
  next
    case False
    with n have "n div 10 < 10" by simp
    with False show ?thesis
      by (simp add: two_digits_def show_nat.simps [of n] show_nat.simps [of "n div 10"])
  qed
qed

lemma show_nat_four_digits:
  assumes "1000 \<le> y" and "y \<le> 9999"
  shows "show_nat y = [48 + y div 1000, 48 + y div 100 mod 10, 48 + y div 10 mod 10, 48 + y mod 10]"
proof -
  from assms have a: "\<not> y < 10" "\<not> y div 10 < 10" "\<not> y div 100 < 10" "y div 1000 < 10"
    by simp_all
  have b: "y div 10 div 10 = y div 100" "y div 100 div 10 = y div 1000"
    by (simp_all add: div_mult2_eq [symmetric])
  have "show_nat (y div 1000) = [48 + y div 1000]"
    using a(4) by (simp add: show_nat.simps [of "y div 1000"])
  then have "show_nat (y div 100) = [48 + y div 1000, 48 + y div 100 mod 10]"
    using a(3) b(2) by (simp add: show_nat.simps [of "y div 100"])
  then have "show_nat (y div 10) = [48 + y div 1000, 48 + y div 100 mod 10, 48 + y div 10 mod 10]"
    using a(2) b(1) by (simp add: show_nat.simps [of "y div 10"])
  then show ?thesis
    using a(1) by (simp add: show_nat.simps [of y])
qed

lemma strftime_explicit:
  assumes "four_digit_datetime d"
  shows "strftime d =
     [48 + year d div 1000, 48 + year d div 100 mod 10, 48 + year d div 10 mod 10,
      48 + year d mod 10, 45,
      48 + month d div 10, 48 + month d mod 10, 45,
      48 + day d div 10, 48 + day d mod 10, 84,
      48 + hour d div 10, 48 + hour d mod 10, 58,
      48 + minute d div 10, 48 + minute d mod 10, 58,
      48 + second d div 10, 48 + second d mod 10, 90]"
proof -
  from assms have y: "1000 \<le> year d" "year d \<le> 9999"
    and r: "month d < 100" "day d < 100" "hour d < 100" "minute d < 100" "second d < 100"
    by (simp_all add: four_digit_datetime_def)
  show ?thesis
    by (simp add: strftime_def show_nat_four_digits [OF y] two_digits_explicit [OF r(1)]
          two_digits_explicit [OF r(2)] two_digits_explicit [OF r(3)]
          two_digits_explicit [OF r(4)] two_digits_explicit [OF r(5)] str_def)
qed

lemma digit_char: "n < 10 \<Longrightarrow> is_digit (48 + n)"
  by (simp add: is_digit_def)

lemma strftime_format:
  assumes "four_digit_datetime d"
  shows "matches_format (strftime d) (str ''####-##-##T##:##:##Z'')"
proof -
  have m: "\<And>n::nat. n mod 10 < 10" by simp
  have "year d div 1000 < 10" "month d div 10 < 10" "day d div 10 < 10"
    "hour d div 10 < 10" "minute d div 10 < 10" "second d div 10 < 10"
    using assms unfolding four_digit_datetime_def by arith+
  then show ?thesis
    by (simp add: strftime_explicit [OF assms] str_def digit_char m)
qed

lemma py_int_examples:
  "py_int pf (str '' 42 '') = Inr 42"
  "py_int pf (str ''-7'') = Inr (- 7)"
  "py_int pf (str ''+3'') = Inr 3"
  "py_int pf (str ''1_000'') = Inr 1000"
  by (simp_all add: py_int_def transform_decimal_and_space_def ascii_isspace_def split_sign_def
        is_digit_def digits_value_def str_def)

lemma not_plain_digits:
  "\<not> list_all is_digit (str '' 42 '')" "\<not> list_all is_digit (str ''-7'')"
  "\<not> list_all is_digit (str ''+3'')" "\<not> list_all is_digit (str ''1_000'')"
  by (simp_all add: is_digit_def str_def)

lemma sample_body:
  "json_dumps (payload_of
      \<lparr> version = str ''1.2.3-beta.1'', channel = str ''beta'', release_notes = [],
        github_repo = str ''foxwise-ai/TheQuickFox'', signature = str ''c2ln'',
        file_size = - 7, api_token = str ''s3cr3t'' \<rparr> sample_now)
   = str ''{\"version\": \"1.2.3-beta.1\", \"build_number\": \"1.2.3-beta.1\", ''
        @ str ''\"channel\": \"beta\", \"release_notes\": \"\", \"download_url\": \"htt''
        @ str ''ps://github.com/foxwise-ai/TheQuickFox/releases/download/v1.''
        @ str ''2.3-beta.1/TheQuickFox-1.2.3-beta.1.zip\", \"signature\": \"c2ln''
        @ str ''\", \"file_size\": -7, \"minimum_os_version\": \"13.0\", \"is_critic''
        @ str ''al\": false, \"published_at\": \"2024-01-02T03:04:05Z\"}''"
  by (simp add: json_dumps_def payload_of_def dumps_item_def encode_basestring_ascii_def
        escape_char_def show_int_def show_nat.simps download_url_of_def strftime_def
        two_digits_def sample_now_def str_def)

lemma read_inputs_cong:
  assumes "list_all (\<lambda>k. env1 k = env2 k) input_names"
  shows "read_inputs pf env1 = read_inputs pf env2"
proof -
  from assms have
    "env1 (str ''VERSION'') = env2 (str ''VERSION'')"
    "env1 (str ''RELEASE_NOTES'') = env2 (str ''RELEASE_NOTES'')"
    "env1 (str ''GITHUB_REPOSITORY'') = env2 (str ''GITHUB_REPOSITORY'')"
    "env1 (str ''SPARKLE_SIGNATURE'') = env2 (str ''SPARKLE_SIGNATURE'')"
    "env1 (str ''FILE_SIZE'') = env2 (str ''FILE_SIZE'')"
    "env1 (str ''INTERNAL_API_TOKEN'') = env2 (str ''INTERNAL_API_TOKEN'')"
    by (simp_all add: input_names_def)
  then have g:
    "environ_getitem env1 (str ''VERSION'') = environ_getitem env2 (str ''VERSION'')"
    "environ_getitem env1 (str ''SPARKLE_SIGNATURE'')
       = environ_getitem env2 (str ''SPARKLE_SIGNATURE'')"
    "environ_getitem env1 (str ''FILE_SIZE'') = environ_getitem env2 (str ''FILE_SIZE'')"
    "environ_getitem env1 (str ''INTERNAL_API_TOKEN'')
       = environ_getitem env2 (str ''INTERNAL_API_TOKEN'')"
    "environ_get env1 (str ''RELEASE_NOTES'') [] = environ_get env2 (str ''RELEASE_NOTES'') []"
    "environ_get env1 (str ''GITHUB_REPOSITORY'') (str ''foxwise-ai/TheQuickFox'')
       = environ_get env2 (str ''GITHUB_REPOSITORY'') (str ''foxwise-ai/TheQuickFox'')"
    by (simp_all add: environ_getitem_def environ_get_def)
  show ?thesis
    unfolding read_inputs_def g by (rule refl)
qed

lemma payload_fields: "map fst (payload_of i now) = field_names"
  by (simp add: payload_of_def field_names_def)

lemma field_names_distinct: "distinct field_names \<and> length field_names = 10"
  by (simp add: field_names_def str_def)

lemma requests_of_main:
  "requests (main pf w) =
     (case read_inputs pf (environ w) of
        Inl e \<Rightarrow> []
      | Inr i \<Rightarrow>
          [\<lparr> url = str ''https://api.thequickfox.ai/api/v1/internal/releases'',
             data = json_dumps (payload_of i (utcnow w 0)),
             headers = [(str ''Authorization'', str ''Bearer '' @ api_token i),
                        (str ''Content-Type'', str ''application/json'')],
             http_method = str ''POST'' \<rparr>])"
  by (simp add: main_def build_request_ok split: sum.split prod.split)

subsection \<open>The channel\<close>

lemma startswith_iff: "startswith s p \<longleftrightarrow> (\<exists>r. s = p @ r)"
  by (induction s p rule: startswith.induct) auto

lemma contains_iff: "contains s sub \<longleftrightarrow> (\<exists>p r. s = p @ sub @ r)"
proof (induction s)
  case Nil
  show ?case by auto
next
  case (Cons c cs)
  show ?case
  proof
    assume "contains (c # cs) sub"
    then consider "startswith (c # cs) sub" | "contains cs sub" by auto
    then show "\<exists>p r. c # cs = p @ sub @ r"
    proof cases
      case 1
      then obtain r where "c # cs = sub @ r" by (auto simp: startswith_iff)
      then have "c # cs = [] @ sub @ r" by simp
      then show ?thesis by blast
    next
      case 2
      with Cons obtain p r where "cs = p @ sub @ r" by auto
      then have "c # cs = (c # p) @ sub @ r" by simp
      then show ?thesis by blast
    qed
  next
    assume "\<exists>p r. c # cs = p @ sub @ r"
    then obtain p r where eq: "c # cs = p @ sub @ r" by blast
    show "contains (c # cs) sub"
    proof (cases p)
      case Nil
      with eq have "startswith (c # cs) sub" by (auto simp: startswith_iff)
      then show ?thesis by simp
    next
      case (Cons a p')
      with eq have "cs = p' @ sub @ r" by simp
      then have "contains cs sub" using Cons.IH by blast
      then show ?thesis by simp
    qed
  qed
qed

lemma beta_not_stable: "str ''beta'' \<noteq> str ''stable''"
  by (simp add: str_def)

text \<open>
  C2. For every version string the channel is \<open>beta\<close> exactly when the string
  \<open>beta\<close> occurs in it as a contiguous substring, compared code point by code point,
  and \<open>stable\<close> otherwise; it takes no other value.
\<close>

theorem channel_beta_iff_substring:
  "(channel_of v = str ''beta'' \<longleftrightarrow> (\<exists>p r. v = p @ str ''beta'' @ r))
   \<and> (channel_of v = str ''stable'' \<longleftrightarrow> \<not> (\<exists>p r. v = p @ str ''beta'' @ r))
   \<and> (channel_of v = str ''beta'' \<or> channel_of v = str ''stable'')"
  using beta_not_stable by (auto simp: channel_of_def contains_iff)

subsection \<open>Configuration errors\<close>

lemma py_int_error: "py_int pf s = Inl e \<Longrightarrow> e = ValueError"
  by (auto simp: py_int_def split: prod.splits if_splits option.splits)

lemma read_inputs_error:
  assumes "environ_w (str ''VERSION'') = None \<or> environ_w (str ''SPARKLE_SIGNATURE'') = None
     \<or> environ_w (str ''FILE_SIZE'') = None \<or> environ_w (str ''INTERNAL_API_TOKEN'') = None
     \<or> (\<exists>s. environ_w (str ''FILE_SIZE'') = Some s \<and> py_int pf s = Inl ValueError)"
  shows "\<exists>e. read_inputs pf environ_w = Inl e \<and> config_error e"
  using assms
  by (auto simp: read_inputs_def environ_getitem_def split: option.splits sum.splits
        dest: py_int_error)

text \<open>
  C3. If one of \<^verbatim>\<open>VERSION\<close>, \<^verbatim>\<open>SPARKLE_SIGNATURE\<close>, \<^verbatim>\<open>FILE_SIZE\<close> and
  \<^verbatim>\<open>INTERNAL_API_TOKEN\<close> is not set, or \<^verbatim>\<open>int()\<close> rejects the value of
  \<^verbatim>\<open>FILE_SIZE\<close>, the run ends with an uncaught configuration error and exit code 1:
  no request has been built or handed to \<^verbatim>\<open>urlopen\<close>, the clock has not been read
  and nothing has been printed.
\<close>

theorem config_error_before_network:
  assumes "environ w (str ''VERSION'') = None \<or> environ w (str ''SPARKLE_SIGNATURE'') = None
     \<or> environ w (str ''FILE_SIZE'') = None \<or> environ w (str ''INTERNAL_API_TOKEN'') = None
     \<or> (\<exists>s. environ w (str ''FILE_SIZE'') = Some s \<and> py_int pf s = Inl ValueError)"
  shows "requests (main pf w) = [] \<and> clock_reads (main pf w) = 0 \<and> stdout (main pf w) = []
     \<and> exit_code (main pf w) = 1 \<and> (\<exists>e. uncaught (main pf w) = Some e \<and> config_error e)"
proof -
  from read_inputs_error [OF assms] obtain e where
    e: "read_inputs pf (environ w) = Inl e" "config_error e" by blast
  from main_config_error [OF e(1)] e(2) show ?thesis by simp
qed

theorem config_error_before_network_witness:
  "environ (sample_world (str ''notanumber'') (Reply 201 (Body []))) (str ''FILE_SIZE'')
     = Some (str ''notanumber'')
   \<and> py_int sample_platform (str ''notanumber'') = Inl ValueError
   \<and> requests (main sample_platform (sample_world (str ''notanumber'') (Reply 201 (Body [])))) = []
   \<and> clock_reads (main sample_platform (sample_world (str ''notanumber'') (Reply 201 (Body [])))) = 0
   \<and> stdout (main sample_platform (sample_world (str ''notanumber'') (Reply 201 (Body [])))) = []
   \<and> exit_code (main sample_platform (sample_world (str ''notanumber'') (Reply 201 (Body [])))) = 1
   \<and> (\<exists>e. uncaught (main sample_platform (sample_world (str ''notanumber'') (Reply 201 (Body []))))
            = Some e \<and> config_error e)"
proof -
  let ?w = "sample_world (str ''notanumber'') (Reply 201 (Body []))"
  have a: "environ ?w (str ''FILE_SIZE'') = Some (str ''notanumber'')"
    by (simp add: sample_world_def sample_environ_def str_def)
  have b: "py_int sample_platform (str ''notanumber'') = Inl ValueError"
    by (simp add: py_int_def transform_decimal_and_space_def ascii_isspace_def split_sign_def
          is_digit_def str_def)
  from a b have "environ ?w (str ''VERSION'') = None \<or> environ ?w (str ''SPARKLE_SIGNATURE'') = None
     \<or> environ ?w (str ''FILE_SIZE'') = None \<or> environ ?w (str ''INTERNAL_API_TOKEN'') = None
     \<or> (\<exists>s. environ ?w (str ''FILE_SIZE'') = Some s \<and> py_int sample_platform s = Inl ValueError)"
    by blast
  from config_error_before_network [OF this] a b show ?thesis by blast
qed

subsection \<open>The answer of the server and the exit code\<close>




text \<open>
  Nor is a body of valid UTF-8 enough: with a standard output that is encoded in ASCII
  the server answers 201 with an empty body, the status line and the response line are
  printed, \<^verbatim>\<open>print\<close> raises on the check mark of line 54, and the process ends with
  exit code 1.
\<close>

lemma ascii_stdout_example:
  "exit_code (main sample_platform (sample_world_ascii (Reply 201 (Body [])))) = 1
   \<and> stdout (main sample_platform (sample_world_ascii (Reply 201 (Body []))))
       = [status_line 201, response_line []]
   \<and> uncaught (main sample_platform (sample_world_ascii (Reply 201 (Body []))))
       = Some UnicodeEncodeError"
proof -
  let ?w = "sample_world_ascii (Reply 201 (Body []))"
  have env: "environ ?w = environ (sample_world (str ''1024'') (Reply 201 (Body [])))"
    by (simp add: sample_world_ascii_def)
  from main_submits [of sample_platform ?w, unfolded env, OF sample_inputs] obtain req where m:
    "main sample_platform ?w =
       \<lparr> stdout = fst (finalize ?w (handle_outcome (stdout_write ?w) (urlopen (network ?w) req))),
         exit_code = fst (snd (finalize ?w (handle_outcome (stdout_write ?w) (urlopen (network ?w) req)))),
         uncaught = snd (snd (finalize ?w (handle_outcome (stdout_write ?w) (urlopen (network ?w) req)))),
         requests = [req], clock_reads = 1 \<rparr>"
    by blast
  have "list_all (\<lambda>c. c < 128) (status_line 201)"
    using printable_show_nat [of 201]
    by (auto simp: status_line_def printable_def str_def list_all_iff)
  then have wr: "stdout_write ?w 0 (status_line 201) = None"
    "stdout_write ?w (Suc 0) (response_line []) = None"
    "stdout_write ?w (Suc (Suc 0)) created_line = Some UnicodeEncodeError"
    by (simp_all add: sample_world_ascii_def sample_world_def response_line_def created_line_def
          str_def)
  have "utf8_decode [] = Some []" by (simp add: utf8_decode.simps)
  then have "handle_outcome (stdout_write ?w) (urlopen (network ?w) req)
      = ([status_line 201, response_line []], 1, Some UnicodeEncodeError)"
    using wr
    by (simp add: sample_world_ascii_def sample_world_def urlopen_def handle_outcome_def
          read_decode_def)
  moreover have "\<not> stdout_flush_fails ?w"
    by (simp add: sample_world_ascii_def sample_world_def)
  ultimately show ?thesis by (simp add: m finalize_def)
qed

text \<open>
  C4. When the transport fails and there is no response, the exception that
  \<^verbatim>\<open>urlopen\<close> raises leaves \<^verbatim>\<open>main()\<close> uncaught: the interpreter reports it with a
  traceback and the process ends with exit code 1; nothing is printed on standard output,
  in particular no response line.
\<close>

theorem transport_failure_exits_1:
  assumes "requests (main pf w) = [req]"
    and "network w req = NoReply e"
  shows "exit_code (main pf w) = 1 \<and> uncaught (main pf w) = Some e \<and> stdout (main pf w) = []"
proof -
  from main_sent_request [OF assms(1)] have m:
    "main pf w =
       \<lparr> stdout = fst (finalize w (handle_outcome (stdout_write w) (urlopen (network w) req))),
         exit_code = fst (snd (finalize w (handle_outcome (stdout_write w) (urlopen (network w) req)))),
         uncaught = snd (snd (finalize w (handle_outcome (stdout_write w) (urlopen (network w) req)))),
         requests = [req], clock_reads = 1 \<rparr>"
    by blast
  have "handle_outcome (stdout_write w) (urlopen (network w) req) = ([], 1, Some e)"
    using assms(2) by (simp add: handle_outcome_def urlopen_def)
  then show ?thesis by (simp add: m finalize_def)
qed

theorem transport_failure_exits_1_witness:
  "(\<exists>req. requests (main sample_platform
              (sample_world (str ''1024'') (NoReply (URLError (str ''Connection refused''))))) = [req]
      \<and> network (sample_world (str ''1024'') (NoReply (URLError (str ''Connection refused'')))) req
          = NoReply (URLError (str ''Connection refused'')))
   \<and> exit_code (main sample_platform
        (sample_world (str ''1024'') (NoReply (URLError (str ''Connection refused''))))) = 1
   \<and> uncaught (main sample_platform
        (sample_world (str ''1024'') (NoReply (URLError (str ''Connection refused'')))))
       = Some (URLError (str ''Connection refused''))
   \<and> stdout (main sample_platform
        (sample_world (str ''1024'') (NoReply (URLError (str ''Connection refused''))))) = []"
proof -
  let ?r = "NoReply (URLError (str ''Connection refused''))"
  from sample_run [of ?r] obtain req where
    req: "requests (main sample_platform (sample_world (str ''1024'') ?r)) = [req]"
         "network (sample_world (str ''1024'') ?r) req = ?r"
    by blast
  from transport_failure_exits_1 [OF req] req show ?thesis by auto
qed

subsection \<open>The fields of the payload\<close>

text \<open>
  C5. In every run that sends a request, the body is the serialisation of a dictionary
  whose \<open>download_url\<close> is exactly
  \<^verbatim>\<open>https://github.com/{repo}/releases/download/v{version}/TheQuickFox-{version}.zip\<close>,
  where \<open>version\<close> is the value of \<^verbatim>\<open>VERSION\<close>, the same in both places, and
  \<open>repo\<close> the value of \<^verbatim>\<open>GITHUB_REPOSITORY\<close> or its default.
\<close>

theorem download_url_template:
  assumes "requests (main pf w) = [req]"
  shows "\<exists>i v. read_inputs pf (environ w) = Inr i
           \<and> data req = json_dumps (payload_of i (utcnow w 0))
           \<and> environ w (str ''VERSION'') = Some v
           \<and> map_of (payload_of i (utcnow w 0)) (str ''download_url'')
               = Some (JStr (str ''https://github.com/''
                   @ environ_get (environ w) (str ''GITHUB_REPOSITORY'')
                       (str ''foxwise-ai/TheQuickFox'')
                   @ str ''/releases/download/v'' @ v @ str ''/TheQuickFox-'' @ v
                   @ str ''.zip''))"
proof -
  from sent_payload [OF assms] obtain i where
    i: "read_inputs pf (environ w) = Inr i"
       "data req = json_dumps (payload_of i (utcnow w 0))"
    by blast
  from read_inputs_sound [OF i(1)] have
    "environ w (str ''VERSION'') = Some (version i)"
    "github_repo i = environ_get (environ w) (str ''GITHUB_REPOSITORY'')
                       (str ''foxwise-ai/TheQuickFox'')"
    by simp_all
  with i show ?thesis
    by (auto simp: payload_lookup download_url_of_def)
qed

theorem download_url_template_witness:
  "\<exists>req i. requests (main sample_platform (sample_world (str ''1024'') (Reply 201 (Body [])))) = [req]
     \<and> data req = json_dumps (payload_of i sample_now)
     \<and> map_of (payload_of i sample_now) (str ''download_url'')
         = Some (JStr (str ''https://github.com/foxwise-ai/TheQuickFox/releases/download/v1.2.3-beta.1/TheQuickFox-1.2.3-beta.1.zip''))"
proof -
  let ?w = "sample_world (str ''1024'') (Reply 201 (Body []))"
  from sample_run [of "Reply 201 (Body [])"] obtain req where
    req: "requests (main sample_platform ?w) = [req]" by blast
  from download_url_template [OF req] obtain i v where
    "data req = json_dumps (payload_of i (utcnow ?w 0))"
    "environ ?w (str ''VERSION'') = Some v"
    "map_of (payload_of i (utcnow ?w 0)) (str ''download_url'')
       = Some (JStr (str ''https://github.com/''
           @ environ_get (environ ?w) (str ''GITHUB_REPOSITORY'') (str ''foxwise-ai/TheQuickFox'')
           @ str ''/releases/download/v'' @ v @ str ''/TheQuickFox-'' @ v @ str ''.zip''))"
    by blast
  then have "data req = json_dumps (payload_of i sample_now)
     \<and> map_of (payload_of i sample_now) (str ''download_url'')
         = Some (JStr (str ''https://github.com/foxwise-ai/TheQuickFox/releases/download/v1.2.3-beta.1/TheQuickFox-1.2.3-beta.1.zip''))"
    by (simp add: sample_environ_lookup environ_get_def) (auto simp: str_def)
  with req show ?thesis by blast
qed

text \<open>
  C6. In every run that sends a request, the \<open>build_number\<close> of the payload is the
  same string as its \<open>version\<close>, the value of \<^verbatim>\<open>VERSION\<close>.
\<close>

theorem build_number_is_version:
  assumes "requests (main pf w) = [req]"
  shows "\<exists>i v. read_inputs pf (environ w) = Inr i
           \<and> data req = json_dumps (payload_of i (utcnow w 0))
           \<and> environ w (str ''VERSION'') = Some v
           \<and> map_of (payload_of i (utcnow w 0)) (str ''version'') = Some (JStr v)
           \<and> map_of (payload_of i (utcnow w 0)) (str ''build_number'') = Some (JStr v)"
proof -
  from sent_payload [OF assms] obtain i where
    i: "read_inputs pf (environ w) = Inr i"
       "data req = json_dumps (payload_of i (utcnow w 0))"
    by blast
  from read_inputs_sound [OF i(1)] have "environ w (str ''VERSION'') = Some (version i)"
    by simp
  with i show ?thesis by (auto simp: payload_lookup)
qed

theorem build_number_is_version_witness:
  "\<exists>req i. requests (main sample_platform (sample_world (str ''1024'') (Reply 201 (Body [])))) = [req]
     \<and> data req = json_dumps (payload_of i sample_now)
     \<and> map_of (payload_of i sample_now) (str ''version'') = Some (JStr (str ''1.2.3-beta.1''))
     \<and> map_of (payload_of i sample_now) (str ''build_number'') = Some (JStr (str ''1.2.3-beta.1''))"
proof -
  let ?w = "sample_world (str ''1024'') (Reply 201 (Body []))"
  from sample_run [of "Reply 201 (Body [])"] obtain req where
    req: "requests (main sample_platform ?w) = [req]" by blast
  from build_number_is_version [OF req] obtain i v where
    "data req = json_dumps (payload_of i (utcnow ?w 0))"
    "environ ?w (str ''VERSION'') = Some v"
    "map_of (payload_of i (utcnow ?w 0)) (str ''version'') = Some (JStr v)"
    "map_of (payload_of i (utcnow ?w 0)) (str ''build_number'') = Some (JStr v)"
    by blast
  then have "data req = json_dumps (payload_of i sample_now)
     \<and> map_of (payload_of i sample_now) (str ''version'') = Some (JStr (str ''1.2.3-beta.1''))
     \<and> map_of (payload_of i sample_now) (str ''build_number'') = Some (JStr (str ''1.2.3-beta.1''))"
    by (simp add: sample_environ_lookup)
  with req show ?thesis by blast
qed

text \<open>
  C8. In every run that sends a request, \<open>release_notes\<close> is the empty string when
  \<^verbatim>\<open>RELEASE_NOTES\<close> is not set and its value, unchanged, when it is; the repository in
  \<open>download_url\<close> is \<^verbatim>\<open>foxwise-ai/TheQuickFox\<close> when \<^verbatim>\<open>GITHUB_REPOSITORY\<close> is not
  set and its value, unchanged, when it is.
\<close>

theorem optional_inputs_default:
  assumes "requests (main pf w) = [req]"
  shows "\<exists>i v. read_inputs pf (environ w) = Inr i
           \<and> data req = json_dumps (payload_of i (utcnow w 0))
           \<and> environ w (str ''VERSION'') = Some v
           \<and> map_of (payload_of i (utcnow w 0)) (str ''release_notes'')
               = Some (JStr (case environ w (str ''RELEASE_NOTES'') of
                               None \<Rightarrow> [] | Some s \<Rightarrow> s))
           \<and> map_of (payload_of i (utcnow w 0)) (str ''download_url'')
               = Some (JStr (download_url_of
                   (case environ w (str ''GITHUB_REPOSITORY'') of
                      None \<Rightarrow> str ''foxwise-ai/TheQuickFox'' | Some r \<Rightarrow> r) v))"
proof -
  from sent_payload [OF assms] obtain i where
    i: "read_inputs pf (environ w) = Inr i"
       "data req = json_dumps (payload_of i (utcnow w 0))"
    by blast
  from read_inputs_sound [OF i(1)] have
    "environ w (str ''VERSION'') = Some (version i)"
    "release_notes i = environ_get (environ w) (str ''RELEASE_NOTES'') []"
    "github_repo i = environ_get (environ w) (str ''GITHUB_REPOSITORY'')
                       (str ''foxwise-ai/TheQuickFox'')"
    by simp_all
  with i show ?thesis
    by (auto simp: payload_lookup environ_get_def)
qed

theorem optional_inputs_default_witness:
  "(\<exists>req i. requests (main sample_platform (sample_world (str ''1024'') (Reply 201 (Body [])))) = [req]
      \<and> data req = json_dumps (payload_of i sample_now)
      \<and> map_of (payload_of i sample_now) (str ''release_notes'') = Some (JStr [])
      \<and> map_of (payload_of i sample_now) (str ''download_url'')
          = Some (JStr (download_url_of (str ''foxwise-ai/TheQuickFox'') (str ''1.2.3-beta.1''))))
   \<and> (\<exists>req i. requests (main sample_platform sample_world_optionals) = [req]
      \<and> data req = json_dumps (payload_of i sample_now)
      \<and> map_of (payload_of i sample_now) (str ''release_notes'')
          = Some (JStr (str ''Faster start''))
      \<and> map_of (payload_of i sample_now) (str ''download_url'')
          = Some (JStr (download_url_of (str ''acme/fox'') (str ''1.2.3-beta.1''))))"
proof
  let ?w = "sample_world (str ''1024'') (Reply 201 (Body []))"
  from sample_run [of "Reply 201 (Body [])"] obtain req where
    req: "requests (main sample_platform ?w) = [req]" by blast
  from optional_inputs_default [OF req] obtain i v where
    "data req = json_dumps (payload_of i (utcnow ?w 0))"
    "environ ?w (str ''VERSION'') = Some v"
    "map_of (payload_of i (utcnow ?w 0)) (str ''release_notes'')
       = Some (JStr (case environ ?w (str ''RELEASE_NOTES'') of None \<Rightarrow> [] | Some s \<Rightarrow> s))"
    "map_of (payload_of i (utcnow ?w 0)) (str ''download_url'')
       = Some (JStr (download_url_of
           (case environ ?w (str ''GITHUB_REPOSITORY'') of
              None \<Rightarrow> str ''foxwise-ai/TheQuickFox'' | Some r \<Rightarrow> r) v))"
    by blast
  then have "data req = json_dumps (payload_of i sample_now)
      \<and> map_of (payload_of i sample_now) (str ''release_notes'') = Some (JStr [])
      \<and> map_of (payload_of i sample_now) (str ''download_url'')
          = Some (JStr (download_url_of (str ''foxwise-ai/TheQuickFox'') (str ''1.2.3-beta.1'')))"
    by (simp add: sample_environ_lookup)
  with req show "\<exists>req i. requests (main sample_platform ?w) = [req]
      \<and> data req = json_dumps (payload_of i sample_now)
      \<and> map_of (payload_of i sample_now) (str ''release_notes'') = Some (JStr [])
      \<and> map_of (payload_of i sample_now) (str ''download_url'')
          = Some (JStr (download_url_of (str ''foxwise-ai/TheQuickFox'') (str ''1.2.3-beta.1'')))"
    by blast
next
  let ?w = sample_world_optionals
  from sample_optionals_run obtain req where
    req: "requests (main sample_platform ?w) = [req]" by blast
  from optional_inputs_default [OF req] obtain i v where
    "data req = json_dumps (payload_of i (utcnow ?w 0))"
    "environ ?w (str ''VERSION'') = Some v"
    "map_of (payload_of i (utcnow ?w 0)) (str ''release_notes'')
       = Some (JStr (case environ ?w (str ''RELEASE_NOTES'') of None \<Rightarrow> [] | Some s \<Rightarrow> s))"
    "map_of (payload_of i (utcnow ?w 0)) (str ''download_url'')
       = Some (JStr (download_url_of
           (case environ ?w (str ''GITHUB_REPOSITORY'') of
              None \<Rightarrow> str ''foxwise-ai/TheQuickFox'' | Some r \<Rightarrow> r) v))"
    by blast
  then have "data req = json_dumps (payload_of i sample_now)
      \<and> map_of (payload_of i sample_now) (str ''release_notes'')
          = Some (JStr (str ''Faster start''))
      \<and> map_of (payload_of i sample_now) (str ''download_url'')
          = Some (JStr (download_url_of (str ''acme/fox'') (str ''1.2.3-beta.1'')))"
    by (simp add: sample_optionals_lookup)
  with req show "\<exists>req i. requests (main sample_platform ?w) = [req]
      \<and> data req = json_dumps (payload_of i sample_now)
      \<and> map_of (payload_of i sample_now) (str ''release_notes'')
          = Some (JStr (str ''Faster start''))
      \<and> map_of (payload_of i sample_now) (str ''download_url'')
          = Some (JStr (download_url_of (str ''acme/fox'') (str ''1.2.3-beta.1'')))"
    by blast
qed

text \<open>
  C7. In every run that sends a request the clock has been read exactly once, and
  \<open>published_at\<close> in the body is that one reading, formatted by
  \<^verbatim>\<open>strftime("%Y-%m-%dT%H:%M:%SZ")\<close>; for a reading with a year of four digits this is
  the year, month, day, hour, minute and second in the shape
  \<^verbatim>\<open>YYYY-MM-DDTHH:MM:SSZ\<close>, each field but the year with two digits.
\<close>

theorem published_at_read_once:
  assumes "requests (main pf w) = [req]"
    and "four_digit_datetime (utcnow w 0)"
  shows "clock_reads (main pf w) = 1
     \<and> (\<exists>i. read_inputs pf (environ w) = Inr i
           \<and> data req = json_dumps (payload_of i (utcnow w 0))
           \<and> map_of (payload_of i (utcnow w 0)) (str ''published_at'')
               = Some (JStr (strftime (utcnow w 0))))
     \<and> matches_format (strftime (utcnow w 0)) (str ''####-##-##T##:##:##Z'')
     \<and> strftime (utcnow w 0) =
         [48 + year (utcnow w 0) div 1000, 48 + year (utcnow w 0) div 100 mod 10,
          48 + year (utcnow w 0) div 10 mod 10, 48 + year (utcnow w 0) mod 10, 45,
          48 + month (utcnow w 0) div 10, 48 + month (utcnow w 0) mod 10, 45,
          48 + day (utcnow w 0) div 10, 48 + day (utcnow w 0) mod 10, 84,
          48 + hour (utcnow w 0) div 10, 48 + hour (utcnow w 0) mod 10, 58,
          48 + minute (utcnow w 0) div 10, 48 + minute (utcnow w 0) mod 10, 58,
          48 + second (utcnow w 0) div 10, 48 + second (utcnow w 0) mod 10, 90]"
proof -
  from main_sent_request [OF assms(1)] obtain i where
    i: "read_inputs pf (environ w) = Inr i"
       "data req = json_dumps (payload_of i (utcnow w 0))"
    and m: "main pf w =
       \<lparr> stdout = fst (finalize w (handle_outcome (stdout_write w) (urlopen (network w) req))),
         exit_code = fst (snd (finalize w (handle_outcome (stdout_write w) (urlopen (network w) req)))),
         uncaught = snd (snd (finalize w (handle_outcome (stdout_write w) (urlopen (network w) req)))),
         requests = [req], clock_reads = 1 \<rparr>"
    by blast
  have "clock_reads (main pf w) = 1" by (simp add: m)
  moreover have "\<exists>i. read_inputs pf (environ w) = Inr i
           \<and> data req = json_dumps (payload_of i (utcnow w 0))
           \<and> map_of (payload_of i (utcnow w 0)) (str ''published_at'')
               = Some (JStr (strftime (utcnow w 0)))"
    using i payload_lookup(10) by blast
  ultimately show ?thesis
    using strftime_format [OF assms(2)] strftime_explicit [OF assms(2)] by blast
qed

theorem published_at_read_once_witness:
  "four_digit_datetime sample_now
   \<and> (\<exists>req i. requests (main sample_platform (sample_world (str ''1024'') (Reply 201 (Body [])))) = [req]
        \<and> data req = json_dumps (payload_of i sample_now)
        \<and> map_of (payload_of i sample_now) (str ''published_at'')
            = Some (JStr (str ''2024-01-02T03:04:05Z'')))
   \<and> clock_reads (main sample_platform (sample_world (str ''1024'') (Reply 201 (Body [])))) = 1"
proof -
  let ?w = "sample_world (str ''1024'') (Reply 201 (Body []))"
  have v: "four_digit_datetime sample_now"
    by (simp add: four_digit_datetime_def sample_now_def)
  then have v': "four_digit_datetime (utcnow ?w 0)" by (simp add: sample_environ_lookup)
  from sample_run [of "Reply 201 (Body [])"] obtain req where
    req: "requests (main sample_platform ?w) = [req]" by blast
  from published_at_read_once [OF req v'] obtain i where
    "clock_reads (main sample_platform ?w) = 1"
    "data req = json_dumps (payload_of i (utcnow ?w 0))"
    "map_of (payload_of i (utcnow ?w 0)) (str ''published_at'')
       = Some (JStr (strftime (utcnow ?w 0)))"
    "strftime (utcnow ?w 0) =
         [48 + year (utcnow ?w 0) div 1000, 48 + year (utcnow ?w 0) div 100 mod 10,
          48 + year (utcnow ?w 0) div 10 mod 10, 48 + year (utcnow ?w 0) mod 10, 45,
          48 + month (utcnow ?w 0) div 10, 48 + month (utcnow ?w 0) mod 10, 45,
          48 + day (utcnow ?w 0) div 10, 48 + day (utcnow ?w 0) mod 10, 84,
          48 + hour (utcnow ?w 0) div 10, 48 + hour (utcnow ?w 0) mod 10, 58,
          48 + minute (utcnow ?w 0) div 10, 48 + minute (utcnow ?w 0) mod 10, 58,
          48 + second (utcnow ?w 0) div 10, 48 + second (utcnow ?w 0) mod 10, 90]"
    by blast
  then have "clock_reads (main sample_platform ?w) = 1
     \<and> data req = json_dumps (payload_of i sample_now)
     \<and> map_of (payload_of i sample_now) (str ''published_at'')
            = Some (JStr (str ''2024-01-02T03:04:05Z''))"
    by (simp add: sample_environ_lookup) (simp add: sample_now_def str_def)
  with req v show ?thesis by blast
qed

subsection \<open>What \<^verbatim>\<open>int()\<close> accepts\<close>

text \<open>
  C9. \<^verbatim>\<open>FILE_SIZE\<close> is parsed by \<^verbatim>\<open>int()\<close>, not by a test for digits: with the other
  required variables set and \<^verbatim>\<open>FILE_SIZE\<close> one of \<^verbatim>\<open>" 42 "\<close>, \<^verbatim>\<open>"-7"\<close>, \<^verbatim>\<open>"+3"\<close> and
  \<^verbatim>\<open>"1_000"\<close>, none of which is a string of decimal digits, no configuration error is
  raised, the request is sent, and its \<open>file_size\<close> is 42, -7, 3 and 1000: a negative
  size is transmitted.
\<close>

theorem file_size_follows_int:
  assumes "environ w (str ''VERSION'') = Some v"
    and "environ w (str ''SPARKLE_SIGNATURE'') = Some sg"
    and "environ w (str ''INTERNAL_API_TOKEN'') = Some tok"
    and "environ w (str ''FILE_SIZE'') = Some fs"
    and "(fs, n) \<in> set [(str '' 42 '', 42), (str ''-7'', - 7), (str ''+3'', 3),
                         (str ''1_000'', 1000)]"
  shows "\<not> list_all is_digit fs
     \<and> py_int pf fs = Inr n
     \<and> (\<exists>req i. requests (main pf w) = [req]
           \<and> read_inputs pf (environ w) = Inr i
           \<and> data req = json_dumps (payload_of i (utcnow w 0))
           \<and> map_of (payload_of i (utcnow w 0)) (str ''file_size'') = Some (JInt n))"
proof -
  from assms(5) have p: "py_int pf fs = Inr n" and d: "\<not> list_all is_digit fs"
    using py_int_examples [of pf] not_plain_digits by auto
  let ?i = "\<lparr> version = v, channel = channel_of v,
           release_notes = environ_get (environ w) (str ''RELEASE_NOTES'') [],
           github_repo = environ_get (environ w) (str ''GITHUB_REPOSITORY'')
                           (str ''foxwise-ai/TheQuickFox''),
           signature = sg, file_size = n, api_token = tok \<rparr>"
  have i: "read_inputs pf (environ w) = Inr ?i"
    using read_inputs_ok [where env = "environ w" and pf = pf, OF assms(1) assms(2) assms(4) p assms(3)] .
  from main_submits [OF i] obtain req where
    "data req = json_dumps (payload_of ?i (utcnow w 0))"
    "main pf w =
       \<lparr> stdout = fst (finalize w (handle_outcome (stdout_write w) (urlopen (network w) req))),
         exit_code = fst (snd (finalize w (handle_outcome (stdout_write w) (urlopen (network w) req)))),
         uncaught = snd (snd (finalize w (handle_outcome (stdout_write w) (urlopen (network w) req)))),
         requests = [req], clock_reads = 1 \<rparr>"
    by blast
  then have "requests (main pf w) = [req] \<and> read_inputs pf (environ w) = Inr ?i
     \<and> data req = json_dumps (payload_of ?i (utcnow w 0))
     \<and> map_of (payload_of ?i (utcnow w 0)) (str ''file_size'') = Some (JInt n)"
    using i by (simp add: payload_lookup)
  then have "\<exists>req i. requests (main pf w) = [req]
           \<and> read_inputs pf (environ w) = Inr i
           \<and> data req = json_dumps (payload_of i (utcnow w 0))
           \<and> map_of (payload_of i (utcnow w 0)) (str ''file_size'') = Some (JInt n)"
    by blast
  with p d show ?thesis by blast
qed

theorem file_size_follows_int_witness:
  "environ (sample_world (str ''-7'') (Reply 201 (Body []))) (str ''FILE_SIZE'') = Some (str ''-7'')
   \<and> \<not> list_all is_digit (str ''-7'')
   \<and> py_int sample_platform (str ''-7'') = Inr (- 7)
   \<and> (\<exists>req. requests (main sample_platform (sample_world (str ''-7'') (Reply 201 (Body [])))) = [req]
         \<and> data req = str ''{\"version\": \"1.2.3-beta.1\", \"build_number\": \"1.2.3-beta.1\", ''
        @ str ''\"channel\": \"beta\", \"release_notes\": \"\", \"download_url\": \"htt''
        @ str ''ps://github.com/foxwise-ai/TheQuickFox/releases/download/v1.''
        @ str ''2.3-beta.1/TheQuickFox-1.2.3-beta.1.zip\", \"signature\": \"c2ln''
        @ str ''\", \"file_size\": -7, \"minimum_os_version\": \"13.0\", \"is_critic''
        @ str ''al\": false, \"published_at\": \"2024-01-02T03:04:05Z\"}'')"
proof -
  let ?w = "sample_world (str ''-7'') (Reply 201 (Body []))"
  let ?i = "\<lparr> version = str ''1.2.3-beta.1'', channel = str ''beta'', release_notes = [],
        github_repo = str ''foxwise-ai/TheQuickFox'', signature = str ''c2ln'',
        file_size = - 7, api_token = str ''s3cr3t'' \<rparr>"
  have e: "environ ?w (str ''VERSION'') = Some (str ''1.2.3-beta.1'')"
    "environ ?w (str ''SPARKLE_SIGNATURE'') = Some (str ''c2ln'')"
    "environ ?w (str ''INTERNAL_API_TOKEN'') = Some (str ''s3cr3t'')"
    "environ ?w (str ''FILE_SIZE'') = Some (str ''-7'')"
    by (simp_all add: sample_world_def sample_environ_def str_def)
  have m: "(str ''-7'', - 7) \<in> set [(str '' 42 '', 42), (str ''-7'', - 7), (str ''+3'', 3),
                         (str ''1_000'', 1000 :: int)]"
    by simp
  from file_size_follows_int [of ?w _ _ _ _ _ sample_platform, OF e m] obtain req i where
    r: "\<not> list_all is_digit (str ''-7'')"
       "py_int sample_platform (str ''-7'') = Inr (- 7)"
       "requests (main sample_platform ?w) = [req]"
       "read_inputs sample_platform (environ ?w) = Inr i"
       "data req = json_dumps (payload_of i (utcnow ?w 0))"
    by blast
  have c: "channel_of (str ''1.2.3-beta.1'') = str ''beta''"
    by (simp add: channel_of_def str_def)
  have "read_inputs sample_platform (environ ?w) = Inr ?i"
    using r(2) c
    by (simp add: read_inputs_ok [where env = "environ ?w" and pf = sample_platform] e
          sample_environ_lookup environ_get_def)
  with r(4) have "i = ?i" by simp
  with r(5) have "data req = str ''{\"version\": \"1.2.3-beta.1\", \"build_number\": \"1.2.3-beta.1\", ''
        @ str ''\"channel\": \"beta\", \"release_notes\": \"\", \"download_url\": \"htt''
        @ str ''ps://github.com/foxwise-ai/TheQuickFox/releases/download/v1.''
        @ str ''2.3-beta.1/TheQuickFox-1.2.3-beta.1.zip\", \"signature\": \"c2ln''
        @ str ''\", \"file_size\": -7, \"minimum_os_version\": \"13.0\", \"is_critic''
        @ str ''al\": false, \"published_at\": \"2024-01-02T03:04:05Z\"}''"
    by (simp only: sample_environ_lookup sample_body)
  with r e show ?thesis by blast
qed

subsection \<open>The body read back\<close>

lemma hex_digit_is_hex: "d < 16 \<Longrightarrow> is_hex (hex_digit d)"
  by (auto simp: is_hex_def hex_digit_def is_digit_def)

lemma hex_digit_plain:
  "d < 16 \<Longrightarrow> hex_digit d \<noteq> 34 \<and> hex_digit d \<noteq> 92 \<and> \<not> hex_digit d < 32"
  by (auto simp: hex_digit_def)

lemma string_literal_u_escape:
  "string_literal (u_escape n @ xs) =
     (case string_literal xs of None \<Rightarrow> None | Some (t, r) \<Rightarrow> Some (u_escape n @ t, r))"
proof -
  have m: "n div 4096 mod 16 < 16" "n div 256 mod 16 < 16" "n div 16 mod 16 < 16" "n mod 16 < 16"
    by simp_all
  show ?thesis
    by (simp add: u_escape_def hex_digit_is_hex [OF m(1)] hex_digit_is_hex [OF m(2)]
          hex_digit_is_hex [OF m(3)] hex_digit_is_hex [OF m(4)]
          hex_digit_plain [OF m(1)] hex_digit_plain [OF m(2)]
          hex_digit_plain [OF m(3)] hex_digit_plain [OF m(4)]
          split: option.split)
qed

lemma string_literal_escape_char:
  "string_literal (escape_char c @ xs) =
     (case string_literal xs of None \<Rightarrow> None | Some (t, r) \<Rightarrow> Some (escape_char c @ t, r))"
  by (simp add: escape_char_def string_literal_u_escape split: option.split)

lemma string_literal_escaped:
  "string_literal (concat (map escape_char s) @ 34 # rest)
     = Some (concat (map escape_char s), rest)"
  by (induction s) (simp_all add: string_literal_escape_char)


lemma show_nat_digits: "list_all is_digit (show_nat n) \<and> show_nat n \<noteq> []"
proof (induction n rule: show_nat.induct)
  case (1 n)
  show ?case
  proof (cases "n < 10")
    case True
    then show ?thesis by (simp add: show_nat.simps [of n] is_digit_def)
  next
    case False
    with 1 show ?thesis by (simp add: show_nat.simps [of n] is_digit_def)
  qed
qed

lemma integer_literal_show_int: "integer_literal (show_int i)"
proof (cases "show_nat (nat i)")
  case Nil
  with show_nat_digits [of "nat i"] show ?thesis by simp
next
  case (Cons c cs)
  with show_nat_digits [of "nat i"] have "is_digit c" "list_all is_digit cs" by simp_all
  then have "c \<noteq> 45" by (auto simp: is_digit_def)
  with Cons \<open>is_digit c\<close> \<open>list_all is_digit cs\<close> show_nat_digits [of "nat (- i)"]
  show ?thesis by (simp add: integer_literal_def show_int_def)
qed

lemma show_int_chars: "list_all (\<lambda>x. x \<noteq> 44 \<and> x \<noteq> 125 \<and> x \<noteq> 34) (show_int i)"
proof -
  have "list_all (\<lambda>x. x \<noteq> 44 \<and> x \<noteq> 125 \<and> x \<noteq> 34) (show_nat n)" for n
    using show_nat_digits [of n] by (auto simp: list_all_iff is_digit_def)
  then show ?thesis by (simp add: show_int_def)
qed

lemma atom_split:
  assumes "list_all (\<lambda>x. x \<noteq> 44 \<and> x \<noteq> 125 \<and> x \<noteq> 34) a" and "c = 44 \<or> c = 125"
  shows "takeWhile (\<lambda>x. x \<noteq> 44 \<and> x \<noteq> 125) (a @ c # r) = a"
    and "dropWhile (\<lambda>x. x \<noteq> 44 \<and> x \<noteq> 125) (a @ c # r) = c # r"
  using assms by (induction a) auto

lemma json_value_atom:
  assumes "list_all (\<lambda>x. x \<noteq> 44 \<and> x \<noteq> 125 \<and> x \<noteq> 34) a" and "a \<noteq> []"
    and "c = 44 \<or> c = 125"
    and "a = str ''true'' \<or> a = str ''false'' \<or> a = str ''null'' \<or> integer_literal a"
  shows "json_value (a @ c # r) = Some (a, c # r)"
proof -
  from assms(2) obtain x xs where a: "a = x # xs" by (cases a) auto
  with assms(1) have "x \<noteq> 34" by simp
  have "json_value ((x # xs) @ c # r) = Some (x # xs, c # r)"
    unfolding json_value_def
    using atom_split [OF assms(1) assms(3), of r] assms(4) \<open>x \<noteq> 34\<close>
    by (simp add: a del: takeWhile.simps dropWhile.simps)
  then show ?thesis by (simp add: a)
qed

lemma json_value_dumps:
  assumes "c = 44 \<or> c = 125"
  shows "json_value (dumps_value v @ c # r) = Some (dumps_value v, c # r)"
proof (cases v)
  case (JStr s)
  then show ?thesis
    by (simp add: json_value_def encode_basestring_ascii_def string_literal_escaped)
next
  case (JInt i)
  have "show_int i \<noteq> []" using integer_literal_show_int [of i] by (auto simp: integer_literal_def)
  from json_value_atom [OF show_int_chars this assms] integer_literal_show_int JInt
  show ?thesis by simp
next
  case (JBool b)
  have "list_all (\<lambda>x. x \<noteq> 44 \<and> x \<noteq> 125 \<and> x \<noteq> 34) (if b then str ''true'' else str ''false'')"
    "(if b then str ''true'' else str ''false'') \<noteq> []"
    by (simp_all add: str_def)
  from json_value_atom [OF this assms] JBool show ?thesis by auto
qed

lemma join_Cons: "xs \<noteq> [] \<Longrightarrow> join sep (x # xs) = x @ sep @ join sep xs"
  by (cases xs) simp_all

lemma object_members_last:
  "object_members (dumps_item (k, v) @ [125])
     = Some [(concat (map escape_char k), dumps_value v)]"
proof -
  have a: "after [34] (dumps_item (k, v) @ [125])
      = Some (concat (map escape_char k) @ 34 # (str '': '' @ dumps_value v @ [125]))"
    by (simp add: after_def dumps_item_def encode_basestring_ascii_def)
  have b: "after (str '': '') (str '': '' @ dumps_value v @ [125]) = Some (dumps_value v @ [125])"
    by (simp add: after_def str_def)
  have c: "json_value (dumps_value v @ [125]) = Some (dumps_value v, [125])"
    by (rule json_value_dumps) simp
  show ?thesis
    by (subst object_members.simps) (simp add: a b c string_literal_escaped)
qed

lemma object_members_next:
  "object_members (dumps_item (k, v) @ 44 # 32 # r)
     = (case object_members r of
          None \<Rightarrow> None
        | Some ms \<Rightarrow> Some ((concat (map escape_char k), dumps_value v) # ms))"
proof -
  have a: "after [34] (dumps_item (k, v) @ 44 # 32 # r)
      = Some (concat (map escape_char k) @ 34 # (str '': '' @ dumps_value v @ 44 # 32 # r))"
    by (simp add: after_def dumps_item_def encode_basestring_ascii_def)
  have b: "after (str '': '') (str '': '' @ dumps_value v @ 44 # 32 # r)
      = Some (dumps_value v @ 44 # 32 # r)"
    by (simp add: after_def str_def)
  have c: "json_value (dumps_value v @ 44 # 32 # r) = Some (dumps_value v, 44 # 32 # r)"
    by (rule json_value_dumps) simp
  have d: "after (str '', '') (44 # 32 # r) = Some r"
    by (simp add: after_def str_def)
  show ?thesis
    by (subst object_members.simps) (simp add: a b c d string_literal_escaped)
qed

lemma object_members_items:
  "d \<noteq> [] \<Longrightarrow>
   object_members (join (str '', '') (map dumps_item d) @ str ''}'')
     = Some (map (\<lambda>kv. (concat (map escape_char (fst kv)), dumps_value (snd kv))) d)"
proof (induction d rule: list_nonempty_induct)
  case (single x)
  obtain k v where x: "x = (k, v)" by (cases x)
  show ?case
    using object_members_last [of k v] by (simp add: x str_def)
next
  case (cons x xs)
  obtain k v where x: "x = (k, v)" by (cases x)
  from cons(1) have "map dumps_item xs \<noteq> []" by simp
  then have j: "join (str '', '') (map dumps_item (x # xs)) @ str ''}''
      = dumps_item (k, v) @ 44 # 32 # (join (str '', '') (map dumps_item xs) @ str ''}'')"
    by (simp add: join_Cons x str_def)
  show ?case
    unfolding j object_members_next cons(2) by (simp add: x)
qed

lemma json_object_dumps:
  "json_object (json_dumps d)
     = Some (map (\<lambda>kv. (concat (map escape_char (fst kv)), dumps_value (snd kv))) d)"
proof (cases "d = []")
  case True
  then show ?thesis by (simp add: json_object_def json_dumps_def after_def str_def)
next
  case False
  then have "join (str '', '') (map dumps_item d) @ str ''}'' \<noteq> str ''}''"
    by (cases d rule: list.exhaust; cases "tl d")
       (auto simp: dumps_item_def encode_basestring_ascii_def str_def)
  with object_members_items [OF False] show ?thesis
    by (simp add: json_object_def json_dumps_def after_def str_def)
qed

lemma payload_members:
  "map (\<lambda>kv. (concat (map escape_char (fst kv)), dumps_value (snd kv))) (payload_of i now)
     = [(str ''version'', dumps_value (JStr (version i))),
        (str ''build_number'', dumps_value (JStr (version i))),
        (str ''channel'', dumps_value (JStr (channel i))),
        (str ''release_notes'', dumps_value (JStr (release_notes i))),
        (str ''download_url'', dumps_value (JStr (download_url_of (github_repo i) (version i)))),
        (str ''signature'', dumps_value (JStr (signature i))),
        (str ''file_size'', dumps_value (JInt (file_size i))),
        (str ''minimum_os_version'', dumps_value (JStr (str ''13.0''))),
        (str ''is_critical'', dumps_value (JBool False)),
        (str ''published_at'', dumps_value (JStr (strftime now)))]"
  by (simp add: payload_of_def escape_char_def str_def del: dumps_value.simps)

lemma sent_members:
  "json_object (json_dumps (payload_of i now))
     = Some [(str ''version'', dumps_value (JStr (version i))),
        (str ''build_number'', dumps_value (JStr (version i))),
        (str ''channel'', dumps_value (JStr (channel i))),
        (str ''release_notes'', dumps_value (JStr (release_notes i))),
        (str ''download_url'', dumps_value (JStr (download_url_of (github_repo i) (version i)))),
        (str ''signature'', dumps_value (JStr (signature i))),
        (str ''file_size'', dumps_value (JInt (file_size i))),
        (str ''minimum_os_version'', dumps_value (JStr (str ''13.0''))),
        (str ''is_critical'', dumps_value (JBool False)),
        (str ''published_at'', dumps_value (JStr (strftime now)))]"
  unfolding json_object_dumps payload_members by (rule refl)

lemma sent_keys:
  "map_option (map fst) (json_object (json_dumps (payload_of i now))) = Some field_names"
  unfolding sent_members by (simp add: field_names_def)

subsection \<open>The request is a function of the inputs\<close>

text \<open>
  C10. Two runs on the same Python build whose environments agree on the six variables and
  whose clocks give the same reading hand the same requests to \<^verbatim>\<open>urlopen\<close>: no request
  at all, or one request with the same URL, method \<^verbatim>\<open>POST\<close>, the same two headers and
  the same body. The body is the UTF-8 encoding of the serialised dictionary. Read back
  from its bytes, the body is one object whose members are the ten fields of the release
  record, each once, in the order of the source and with the serialised value of the
  field, and no other member.
\<close>

theorem request_deterministic:
  assumes "list_all (\<lambda>k. environ w1 k = environ w2 k) input_names"
    and "utcnow w1 0 = utcnow w2 0"
  shows "requests (main pf w1) = requests (main pf w2)
     \<and> (requests (main pf w1) = []
         \<or> (\<exists>i tok req. read_inputs pf (environ w1) = Inr i
               \<and> environ w1 (str ''INTERNAL_API_TOKEN'') = Some tok
               \<and> requests (main pf w1) = [req]
               \<and> req =
                   \<lparr> url = str ''https://api.thequickfox.ai/api/v1/internal/releases'',
                     data = json_dumps (payload_of i (utcnow w1 0)),
                     headers = [(str ''Authorization'', str ''Bearer '' @ tok),
                                (str ''Content-Type'', str ''application/json'')],
                     http_method = str ''POST'' \<rparr>
               \<and> utf8_encode (json_dumps (payload_of i (utcnow w1 0))) = Some (data req)
               \<and> json_object (data req)
                   = Some [(str ''version'', dumps_value (JStr (version i))),
                       (str ''build_number'', dumps_value (JStr (version i))),
                       (str ''channel'', dumps_value (JStr (channel i))),
                       (str ''release_notes'', dumps_value (JStr (release_notes i))),
                       (str ''download_url'',
                        dumps_value (JStr (download_url_of (github_repo i) (version i)))),
                       (str ''signature'', dumps_value (JStr (signature i))),
                       (str ''file_size'', dumps_value (JInt (file_size i))),
                       (str ''minimum_os_version'', dumps_value (JStr (str ''13.0''))),
                       (str ''is_critical'', dumps_value (JBool False)),
                       (str ''published_at'', dumps_value (JStr (strftime (utcnow w1 0))))]
               \<and> map_option (map fst) (json_object (data req)) = Some field_names
               \<and> map fst (payload_of i (utcnow w1 0)) = field_names
               \<and> distinct field_names \<and> length field_names = 10))"
proof -
  have eq: "read_inputs pf (environ w1) = read_inputs pf (environ w2)"
    using assms(1) by (rule read_inputs_cong)
  have same: "requests (main pf w1) = requests (main pf w2)"
    unfolding requests_of_main eq assms(2) by (rule refl)
  show ?thesis
  proof (cases "read_inputs pf (environ w1)")
    case (Inl e)
    then have "requests (main pf w1) = []" by (simp add: requests_of_main)
    with same show ?thesis by simp
  next
    case (Inr i)
    let ?req = "\<lparr> url = str ''https://api.thequickfox.ai/api/v1/internal/releases'',
           data = json_dumps (payload_of i (utcnow w1 0)),
           headers = [(str ''Authorization'', str ''Bearer '' @ api_token i),
                      (str ''Content-Type'', str ''application/json'')],
           http_method = str ''POST'' \<rparr>"
    from read_inputs_sound [OF Inr] have
      tok: "environ w1 (str ''INTERNAL_API_TOKEN'') = Some (api_token i)" by simp
    have r: "requests (main pf w1) = [?req]"
      by (simp add: requests_of_main Inr)
    have d: "data ?req = json_dumps (payload_of i (utcnow w1 0))" by simp
    have u: "utf8_encode (json_dumps (payload_of i (utcnow w1 0))) = Some (data ?req)"
      by (simp add: utf8_encode_printable printable_json_dumps)
    have m: "json_object (data ?req)
                   = Some [(str ''version'', dumps_value (JStr (version i))),
                       (str ''build_number'', dumps_value (JStr (version i))),
                       (str ''channel'', dumps_value (JStr (channel i))),
                       (str ''release_notes'', dumps_value (JStr (release_notes i))),
                       (str ''download_url'',
                        dumps_value (JStr (download_url_of (github_repo i) (version i)))),
                       (str ''signature'', dumps_value (JStr (signature i))),
                       (str ''file_size'', dumps_value (JInt (file_size i))),
                       (str ''minimum_os_version'', dumps_value (JStr (str ''13.0''))),
                       (str ''is_critical'', dumps_value (JBool False)),
                       (str ''published_at'', dumps_value (JStr (strftime (utcnow w1 0))))]"
      unfolding d by (rule sent_members)
    have k: "map_option (map fst) (json_object (data ?req)) = Some field_names"
      unfolding d by (rule sent_keys)
    from Inr tok r u m k payload_fields [of i "utcnow w1 0"] field_names_distinct
    have "\<exists>i tok req. read_inputs pf (environ w1) = Inr i
               \<and> environ w1 (str ''INTERNAL_API_TOKEN'') = Some tok
               \<and> requests (main pf w1) = [req]
               \<and> req =
                   \<lparr> url = str ''https://api.thequickfox.ai/api/v1/internal/releases'',
                     data = json_dumps (payload_of i (utcnow w1 0)),
                     headers = [(str ''Authorization'', str ''Bearer '' @ tok),
                                (str ''Content-Type'', str ''application/json'')],
                     http_method = str ''POST'' \<rparr>
               \<and> utf8_encode (json_dumps (payload_of i (utcnow w1 0))) = Some (data req)
               \<and> json_object (data req)
                   = Some [(str ''version'', dumps_value (JStr (version i))),
                       (str ''build_number'', dumps_value (JStr (version i))),
                       (str ''channel'', dumps_value (JStr (channel i))),
                       (str ''release_notes'', dumps_value (JStr (release_notes i))),
                       (str ''download_url'',
                        dumps_value (JStr (download_url_of (github_repo i) (version i)))),
                       (str ''signature'', dumps_value (JStr (signature i))),
                       (str ''file_size'', dumps_value (JInt (file_size i))),
                       (str ''minimum_os_version'', dumps_value (JStr (str ''13.0''))),
                       (str ''is_critical'', dumps_value (JBool False)),
                       (str ''published_at'', dumps_value (JStr (strftime (utcnow w1 0))))]
               \<and> map_option (map fst) (json_object (data req)) = Some field_names
               \<and> map fst (payload_of i (utcnow w1 0)) = field_names
               \<and> distinct field_names \<and> length field_names = 10"
      by blast
    with same show ?thesis by blast
  qed
qed

theorem request_deterministic_witness:
  "list_all (\<lambda>k. environ (sample_world (str ''1024'') (Reply 201 (Body []))) k
                  = environ sample_world_other k) input_names
   \<and> utcnow (sample_world (str ''1024'') (Reply 201 (Body []))) 0 = utcnow sample_world_other 0
   \<and> environ (sample_world (str ''1024'') (Reply 201 (Body []))) (str ''HOME'') = None
   \<and> environ sample_world_other (str ''HOME'') = Some (str ''/root'')
   \<and> requests (main sample_platform (sample_world (str ''1024'') (Reply 201 (Body []))))
       = requests (main sample_platform sample_world_other)
   \<and> length (requests (main sample_platform sample_world_other)) = 1
   \<and> map_option (map fst)
        (json_object (data (hd (requests (main sample_platform sample_world_other)))))
       = Some field_names"
proof -
  let ?w = "sample_world (str ''1024'') (Reply 201 (Body []))"
  have a: "list_all (\<lambda>k. environ ?w k = environ sample_world_other k) input_names"
    by (simp add: input_names_def sample_world_def sample_world_other_def sample_environ_def
          str_def)
  have b: "utcnow ?w 0 = utcnow sample_world_other 0"
    by (simp add: sample_world_def sample_world_other_def)
  have c: "environ ?w (str ''HOME'') = None"
          "environ sample_world_other (str ''HOME'') = Some (str ''/root'')"
    by (simp_all add: sample_world_def sample_world_other_def sample_environ_def str_def)
  from sample_run [of "Reply 201 (Body [])"] have
    d: "length (requests (main sample_platform ?w)) = 1" by auto
  then have ne: "requests (main sample_platform ?w) \<noteq> []" by auto
  from request_deterministic [OF a b, of sample_platform] ne have
    e: "requests (main sample_platform ?w) = requests (main sample_platform sample_world_other)"
    and "\<exists>req. requests (main sample_platform ?w) = [req]
           \<and> map_option (map fst) (json_object (data req)) = Some field_names"
    by blast+
  then obtain req where req: "requests (main sample_platform ?w) = [req]"
    "map_option (map fst) (json_object (data req)) = Some field_names" by blast
  have "requests (main sample_platform sample_world_other) = [req]"
    by (rule trans [OF e [symmetric] req(1)])
  then have "hd (requests (main sample_platform sample_world_other)) = req" by simp
  with req(2) have "map_option (map fst)
        (json_object (data (hd (requests (main sample_platform sample_world_other)))))
       = Some field_names" by (simp only:)
  with a b c d e show ?thesis by simp
qed

end
